theory Spec2Isabelle
  imports Main
begin

section \<open>The state-graph engine of pkg/core: data model\<close>

text \<open>
  The Go package \<^verbatim>\<open>core\<close> is generic in the state type \<^verbatim>\<open>T\<close>; here it is the type
  variable \<open>'s\<close>. Values of \<^verbatim>\<open>interface{}\<close> carried by an interrupt are \<open>'d option\<close>
  (\<open>None\<close> is \<^verbatim>\<open>nil\<close>), and \<^verbatim>\<open>json.RawMessage\<close> is the type variable \<open>'j\<close>.
  Step functions and routers are Go closures: what they read and write beyond their
  arguments is an explicit world \<open>'w\<close> that is passed in and returned.
\<close>

subsection \<open>Errors\<close>

text \<open>
  A Go \<^verbatim>\<open>error\<close> value. \<open>InterruptError\<close> is \<^verbatim>\<open>*InterruptError{Data}\<close>; \<open>ErrorString\<close> is
  \<^verbatim>\<open>errors.New(text)\<close> and stands for every other error a step function, a router,
  \<^verbatim>\<open>json.Marshal\<close> or a context can produce. The remaining constructors are the errors
  \<^verbatim>\<open>Invoke\<close> builds with \<^verbatim>\<open>fmt.Errorf\<close>:
  \<^item> \<open>RecursionLimitExceeded n\<close>: \<^verbatim>\<open>"recursion limit (%d) exceeded"\<close>;
  \<^item> \<open>TriggeringBreakpoint e\<close>: \<^verbatim>\<open>"error triggering breakpoint: %w"\<close>;
  \<^item> \<open>WaitingForResume e\<close>: \<^verbatim>\<open>"error waiting for resume: %w"\<close>;
  \<^item> \<open>NodeNotFound n\<close>: \<^verbatim>\<open>"%w: %s"\<close> of \<^verbatim>\<open>ErrNodeNotFound\<close>;
  \<^item> \<open>TriggeringInterrupt e\<close>: \<^verbatim>\<open>"error triggering interrupt: %w"\<close>;
  \<^item> \<open>NodeExecutionFailed n e\<close>: \<^verbatim>\<open>"error in node %s: %w"\<close>;
  \<^item> \<open>RouterError n e\<close>: \<^verbatim>\<open>"error in router for node %s: %w"\<close>;
  \<^item> \<open>InvalidRouterOutput\<close>: \<^verbatim>\<open>"%w: router returned no nodes"\<close> of \<^verbatim>\<open>ErrInvalidRouterOutput\<close>;
  \<^item> \<open>NoOutgoingEdge n\<close>: \<^verbatim>\<open>"%w: %s"\<close> of \<^verbatim>\<open>ErrNoOutgoingEdge\<close>.
  The sentinels \<^verbatim>\<open>ErrNodeNotFound\<close> and \<^verbatim>\<open>ErrNoOutgoingEdge\<close> are declared in a file that is
  not among the sources; only their identity matters here.
\<close>

datatype 'd error =
    InterruptError "'d option"
  | ErrorString string
  | RecursionLimitExceeded int
  | TriggeringBreakpoint "'d error"
  | WaitingForResume "'d error"
  | NodeNotFound string
  | TriggeringInterrupt "'d error"
  | NodeExecutionFailed string "'d error"
  | RouterError string "'d error"
  | InvalidRouterOutput
  | NoOutgoingEdge string

subsection \<open>Stream modes, events and what is sent on the channels\<close>

type_synonym StreamMode = string

definition StreamValues :: StreamMode where "StreamValues = ''values''"
definition StreamUpdates :: StreamMode where "StreamUpdates = ''updates''"
definition StreamCustom :: StreamMode where "StreamCustom = ''custom''"
definition StreamMessages :: StreamMode where "StreamMessages = ''messages''"
definition StreamDebug :: StreamMode where "StreamDebug = ''debug''"

type_synonym EventType = string

definition EventChainStart :: EventType where "EventChainStart = ''on_chain_start''"
definition EventChainEnd :: EventType where "EventChainEnd = ''on_chain_end''"

datatype metadata_value = MetaInt int | MetaString string

text \<open>
  \<^verbatim>\<open>Event\<close>: the fields \<^verbatim>\<open>Invoke\<close> sets, but for \<^verbatim>\<open>RunID\<close> and \<^verbatim>\<open>Timestamp\<close>, which are
  read from the clock. \<^verbatim>\<open>Metadata\<close> is a Go map; it is listed here by key.
\<close>

record Event =
  Type :: EventType
  Name :: string
  Metadata :: "(string \<times> metadata_value) list"

record 's StreamEvent =
  Mode :: StreamMode
  Data :: 's

record 'j InterruptInfo =
  NodeName :: string
  Data :: 'j
  State :: 'j

text \<open>
  One entry of a run's log: a send on the stream channel, on the event channel or on
  the interrupt channel, in the order \<^verbatim>\<open>Invoke\<close> performs them. \<open>NodeCall n s\<close> and
  \<open>RouterCall n s\<close> record that the step function of node \<open>n\<close>, or the router of the edge
  from \<open>n\<close>, was called with state \<open>s\<close>; they are not sends, and are kept so that
  "no node function executed" can be said of a run.
\<close>

datatype ('s, 'j) obs =
    StreamSend "'s StreamEvent"
  | EventSend Event
  | InterruptSend "'j InterruptInfo"
  | NodeCall string 's
  | RouterCall string 's

subsection \<open>Streamer\<close>

record Streamer =
  modes :: "StreamMode list"

primrec hasMode_loop :: "StreamMode list \<Rightarrow> StreamMode \<Rightarrow> bool" where
  "hasMode_loop [] mode = False"
| "hasMode_loop (m # ms) mode = (if m = mode then True else hasMode_loop ms mode)"

definition hasMode :: "Streamer \<Rightarrow> StreamMode \<Rightarrow> bool" where
  "hasMode s mode = hasMode_loop (modes s) mode"

definition NewStreamer :: "StreamMode list \<Rightarrow> Streamer" where
  "NewStreamer ms = \<lparr>modes = ms\<rparr>"

text \<open>Each emitter returns what it sends: nothing when its mode is not active.\<close>

definition EmitEvent :: "Streamer \<Rightarrow> Event \<Rightarrow> ('s, 'j) obs list" where
  "EmitEvent s evt = (if hasMode s StreamDebug then [EventSend evt] else [])"

definition EmitValue :: "Streamer \<Rightarrow> 's \<Rightarrow> ('s, 'j) obs list" where
  "EmitValue s state =
     (if hasMode s StreamValues
      then [StreamSend \<lparr>Mode = StreamValues, StreamEvent.Data = state\<rparr>] else [])"

definition EmitUpdate :: "Streamer \<Rightarrow> 's \<Rightarrow> ('s, 'j) obs list" where
  "EmitUpdate s update =
     (if hasMode s StreamUpdates
      then [StreamSend \<lparr>Mode = StreamUpdates, StreamEvent.Data = update\<rparr>] else [])"

definition EmitCustom :: "Streamer \<Rightarrow> 's \<Rightarrow> ('s, 'j) obs list" where
  "EmitCustom s data =
     (if hasMode s StreamCustom
      then [StreamSend \<lparr>Mode = StreamCustom, StreamEvent.Data = data\<rparr>] else [])"

definition EmitMessage :: "Streamer \<Rightarrow> 's \<Rightarrow> ('s, 'j) obs list" where
  "EmitMessage s msg =
     (if hasMode s StreamMessages
      then [StreamSend \<lparr>Mode = StreamMessages, StreamEvent.Data = msg\<rparr>] else [])"

record StreamConfig =
  Modes :: "StreamMode list"
  BufferSize :: int

definition DefaultStreamConfig :: StreamConfig where
  "DefaultStreamConfig = \<lparr>Modes = [StreamValues], BufferSize = 100\<rparr>"

subsection \<open>What the package takes from outside\<close>

text \<open>
  \<open>zero_value\<close> is \<^verbatim>\<open>var zero T\<close>. \<open>END\<close> is the constant \<^verbatim>\<open>END\<close>, declared in a file that is
  not among the sources. \<open>marshal_data\<close> and \<open>marshal_state\<close> are \<^verbatim>\<open>json.Marshal\<close> at the
  two types it is called at; \<open>Inl\<close> is its error.
\<close>

record ('s, 'd, 'j) runtime =
  zero_value :: 's
  END :: string
  marshal_data :: "'d option \<Rightarrow> 'd error + 'j"
  marshal_state :: "'s \<Rightarrow> 'd error + 'j"

subsection \<open>InterruptManager\<close>

text \<open>
  The mutex-guarded fields. The two unbuffered channels are not fields of the model:
  a send on \<^verbatim>\<open>interruptCh\<close> is an \<open>InterruptSend\<close> of the log, and what arrives on
  \<^verbatim>\<open>resumeCh\<close> comes from the controller (below).
\<close>

record InterruptManager =
  interrupted :: bool
  breakpoints :: "string set"

definition NewInterruptManager :: InterruptManager where
  "NewInterruptManager = \<lparr>interrupted = False, breakpoints = {}\<rparr>"

definition AddBreakpoint :: "InterruptManager \<Rightarrow> string \<Rightarrow> InterruptManager" where
  "AddBreakpoint m nodeName = m\<lparr>breakpoints := insert nodeName (breakpoints m)\<rparr>"

definition RemoveBreakpoint :: "InterruptManager \<Rightarrow> string \<Rightarrow> InterruptManager" where
  "RemoveBreakpoint m nodeName = m\<lparr>breakpoints := breakpoints m - {nodeName}\<rparr>"

definition HasBreakpoint :: "InterruptManager \<Rightarrow> string \<Rightarrow> bool" where
  "HasBreakpoint m nodeName = (nodeName \<in> breakpoints m)"

text \<open>
  \<^verbatim>\<open>(*InterruptManager).Interrupt\<close>: the manager afterwards, and either the error returned
  or the \<^verbatim>\<open>InterruptInfo\<close> sent on the interrupt channel (the send is assumed to be
  received). The flag is set under the lock, before anything is marshalled.
\<close>

definition InterruptManager_Interrupt ::
  "('s, 'd, 'j) runtime \<Rightarrow> InterruptManager \<Rightarrow> string \<Rightarrow> 'd option \<Rightarrow> 's
     \<Rightarrow> InterruptManager \<times> ('d error + 'j InterruptInfo)" where
  "InterruptManager_Interrupt rt m nodeName data state =
     (if interrupted m then (m, Inl (ErrorString ''already interrupted''))
      else
        let m' = m\<lparr>interrupted := True\<rparr> in
        (case marshal_data rt data of
           Inl err \<Rightarrow> (m', Inl err)
         | Inr dataBytes \<Rightarrow>
             (case marshal_state rt state of
                Inl err \<Rightarrow> (m', Inl err)
              | Inr stateBytes \<Rightarrow>
                  (m', Inr \<lparr>NodeName = nodeName, InterruptInfo.Data = dataBytes,
                            State = stateBytes\<rparr>))))"

text \<open>
  \<^verbatim>\<open>(*InterruptManager).Resume\<close>: the manager afterwards and the error returned; when the
  error is \<open>None\<close> the state has been sent on the resume channel.
\<close>

definition Resume :: "InterruptManager \<Rightarrow> 's \<Rightarrow> InterruptManager \<times> 'd error option" where
  "Resume m state =
     (if \<not> interrupted m then (m, Some (ErrorString ''not interrupted''))
      else (m\<lparr>interrupted := False\<rparr>, None))"

text \<open>
  The other party of the rendezvous. While \<^verbatim>\<open>Invoke\<close> waits in \<^verbatim>\<open>WaitForResume\<close>, the
  controller either edits the breakpoints and calls \<^verbatim>\<open>Resume\<close> with a state, or the
  context is done with an error (\<^verbatim>\<open>ctx.Err()\<close>). A run is given the list of what the
  controller will do, one entry per wait; when the list is empty nobody resumes and
  the context is never done, so the wait does not return. Nothing else touches the
  manager while \<^verbatim>\<open>Invoke\<close> runs: the package gives concurrent runs of one graph no
  isolation, and they are not modelled.
\<close>

datatype breakpoint_edit = Add string | Remove string

datatype ('s, 'd) controller =
    ControllerResume "breakpoint_edit list" 's
  | ContextDone "'d error"

primrec edit_breakpoints :: "InterruptManager \<Rightarrow> breakpoint_edit list \<Rightarrow> InterruptManager" where
  "edit_breakpoints m [] = m"
| "edit_breakpoints m (e # es) =
     edit_breakpoints (case e of Add n \<Rightarrow> AddBreakpoint m n | Remove n \<Rightarrow> RemoveBreakpoint m n) es"

text \<open>
  \<^verbatim>\<open>WaitForResume\<close>: \<open>None\<close> when it never returns, else the pair it returns; with it the
  manager as the controller left it and the controller's remaining actions. A
  \<^verbatim>\<open>Resume\<close> that fails sends nothing, and the wait goes on.
\<close>

fun WaitForResume ::
  "'s \<Rightarrow> InterruptManager \<Rightarrow> ('s, 'd) controller list
     \<Rightarrow> ('s \<times> 'd error option) option \<times> InterruptManager \<times> ('s, 'd) controller list" where
  "WaitForResume zero m [] = (None, m, [])"
| "WaitForResume zero m (ControllerResume edits state # rs) =
     (case Resume (edit_breakpoints m edits) state of
        (m', None) \<Rightarrow> (Some (state, None), m', rs)
      | (m', Some (err :: 'd error)) \<Rightarrow> WaitForResume zero m' rs)"
| "WaitForResume zero m (ContextDone err # rs) = (Some (zero, Some err), m, rs)"

text \<open>The helper \<^verbatim>\<open>Interrupt[T]\<close> for step functions, and the two tests on errors.\<close>

definition Interrupt :: "('s, 'd, 'j) runtime \<Rightarrow> 'c \<Rightarrow> 'd option \<Rightarrow> 's \<times> 'd error option" where
  "Interrupt rt ctx data = (zero_value rt, Some (InterruptError data))"

fun IsInterruptError :: "'d error \<Rightarrow> bool" where
  "IsInterruptError (InterruptError d) = True"
| "IsInterruptError err = False"

fun GetInterruptData :: "'d error \<Rightarrow> 'd option \<times> bool" where
  "GetInterruptData (InterruptError d) = (d, True)"
| "GetInterruptData err = (None, False)"

subsection \<open>StateGraph\<close>

type_synonym ('s, 'w, 'd) step_function = "'s \<Rightarrow> 'w \<Rightarrow> ('s \<times> 'd error option) \<times> 'w"

type_synonym ('s, 'w, 'd) Router = "'s \<Rightarrow> 'w \<Rightarrow> (string list \<times> 'd error option) \<times> 'w"

record ('s, 'w, 'd) StateNode =
  Name :: string
  Function :: "('s, 'w, 'd) step_function"

record ('s, 'w, 'd) ConditionalEdge =
  From :: string
  Router :: "('s, 'w, 'd) Router"
  Mapping :: "(string \<rightharpoonup> string) option"

record ('s, 'w, 'd) StateGraph =
  nodes :: "string \<rightharpoonup> ('s, 'w, 'd) StateNode"
  edges :: "('s, 'w, 'd) ConditionalEdge list"
  entryPoint :: string
  recursionLimit :: int
  interruptManager :: InterruptManager
  streamer :: Streamer
  streamConfig :: StreamConfig

definition NewStateGraph :: "('s, 'w, 'd) StateGraph" where
  "NewStateGraph =
     \<lparr>nodes = Map.empty, edges = [], entryPoint = [], recursionLimit = 25,
      interruptManager = NewInterruptManager,
      streamer = NewStreamer (Modes DefaultStreamConfig),
      streamConfig = DefaultStreamConfig\<rparr>"

definition SetStreamConfig :: "('s, 'w, 'd) StateGraph \<Rightarrow> StreamConfig \<Rightarrow> ('s, 'w, 'd) StateGraph" where
  "SetStreamConfig g config = g\<lparr>streamConfig := config, streamer := NewStreamer (Modes config)\<rparr>"

definition AddNode ::
  "('s, 'w, 'd) StateGraph \<Rightarrow> string \<Rightarrow> ('s, 'w, 'd) step_function \<Rightarrow> ('s, 'w, 'd) StateGraph" where
  "AddNode g name fn = g\<lparr>nodes := (nodes g)(name \<mapsto> \<lparr>StateNode.Name = name, Function = fn\<rparr>)\<rparr>"

definition AddConditionalEdges ::
  "('s, 'w, 'd) StateGraph \<Rightarrow> string \<Rightarrow> ('s, 'w, 'd) Router \<Rightarrow> (string \<rightharpoonup> string) option
     \<Rightarrow> ('s, 'w, 'd) StateGraph" where
  "AddConditionalEdges g from router mapping =
     g\<lparr>edges := edges g @ [\<lparr>From = from, Router = router, Mapping = mapping\<rparr>]\<rparr>"

definition SetEntryPoint :: "('s, 'w, 'd) StateGraph \<Rightarrow> string \<Rightarrow> ('s, 'w, 'd) StateGraph" where
  "SetEntryPoint g name = g\<lparr>entryPoint := name\<rparr>"

definition SetRecursionLimit :: "('s, 'w, 'd) StateGraph \<Rightarrow> int \<Rightarrow> ('s, 'w, 'd) StateGraph" where
  "SetRecursionLimit g limit = g\<lparr>recursionLimit := limit\<rparr>"

definition AddBreakpoint_graph :: "('s, 'w, 'd) StateGraph \<Rightarrow> string \<Rightarrow> ('s, 'w, 'd) StateGraph" where
  "AddBreakpoint_graph g nodeName =
     g\<lparr>interruptManager := AddBreakpoint (interruptManager g) nodeName\<rparr>"

definition RemoveBreakpoint_graph :: "('s, 'w, 'd) StateGraph \<Rightarrow> string \<Rightarrow> ('s, 'w, 'd) StateGraph" where
  "RemoveBreakpoint_graph g nodeName =
     g\<lparr>interruptManager := RemoveBreakpoint (interruptManager g) nodeName\<rparr>"

text \<open>
  \<^verbatim>\<open>Compile\<close>: a \<^verbatim>\<open>RunnableState\<close> only holds the graph it was compiled from, so the
  compiled graph is the graph itself; \<open>None\<close> is the error \<^verbatim>\<open>ErrEntryPointNotSet\<close>.
\<close>

definition Compile :: "('s, 'w, 'd) StateGraph \<Rightarrow> ('s, 'w, 'd) StateGraph option" where
  "Compile g = (if entryPoint g = [] then None else Some g)"

section \<open>The execution engine: RunnableState.Invoke\<close>

text \<open>
  What a run of \<^verbatim>\<open>Invoke\<close> leaves behind: its log, what it returned (\<open>None\<close> when it never
  returns because it waits for a resume that does not come), the interrupt manager
  and the world afterwards.
\<close>

record ('s, 'w, 'd, 'j) run =
  observed :: "('s, 'j) obs list"
  returned :: "('s \<times> 'd error option) option"
  manager :: InterruptManager
  world :: 'w

definition finish ::
  "('s, 'j) obs list \<Rightarrow> ('s \<times> 'd error option) option \<Rightarrow> InterruptManager \<Rightarrow> 'w
     \<Rightarrow> ('s, 'w, 'd, 'j) run" where
  "finish log res m w = \<lparr>observed = log, returned = res, manager = m, world = w\<rparr>"

definition after :: "('s, 'j) obs list \<Rightarrow> ('s, 'w, 'd, 'j) run \<Rightarrow> ('s, 'w, 'd, 'j) run" where
  "after log r = r\<lparr>observed := log @ observed r\<rparr>"

text \<open>
  The pair \<^verbatim>\<open>Interrupt\<close>, \<^verbatim>\<open>WaitForResume\<close> that \<^verbatim>\<open>Invoke\<close> runs at a breakpoint (lines
  197 to 207 of its file) and again at an interrupt error (lines 234 to 243); \<open>wrap\<close> is the
  \<^verbatim>\<open>fmt.Errorf\<close> around a failure of \<^verbatim>\<open>Interrupt\<close>, the only difference between the two.
  The result is the log, the manager, the controller's remaining actions, and either
  what \<^verbatim>\<open>Invoke\<close> returns at once (\<open>Inl\<close>; \<open>Inl None\<close> when the wait never returns) or the
  resumed state (\<open>Inr\<close>).
\<close>

definition interrupt_and_wait ::
  "('s, 'd, 'j) runtime \<Rightarrow> ('d error \<Rightarrow> 'd error) \<Rightarrow> InterruptManager
     \<Rightarrow> ('s, 'd) controller list \<Rightarrow> string \<Rightarrow> 'd option \<Rightarrow> 's
     \<Rightarrow> ('s, 'j) obs list \<times> InterruptManager \<times> ('s, 'd) controller list
         \<times> (('s \<times> 'd error option) option + 's)" where
  "interrupt_and_wait rt wrap m rs currentNode data state =
     (case InterruptManager_Interrupt rt m currentNode data state of
        (m1, Inl err) \<Rightarrow> ([], m1, rs, Inl (Some (zero_value rt, Some (wrap err))))
      | (m1, Inr info) \<Rightarrow>
          (case WaitForResume (zero_value rt) m1 rs of
             (None, m2, rs2) \<Rightarrow> ([InterruptSend info], m2, rs2, Inl None)
           | (Some (state', Some err), m2, rs2) \<Rightarrow>
               ([InterruptSend info], m2, rs2,
                Inl (Some (zero_value rt, Some (WaitingForResume err))))
           | (Some (state', None), m2, rs2) \<Rightarrow> ([InterruptSend info], m2, rs2, Inr state')))"

text \<open>Lines 195 to 208: the breakpoint check at the top of a visit.\<close>

definition check_breakpoint ::
  "('s, 'd, 'j) runtime \<Rightarrow> InterruptManager \<Rightarrow> ('s, 'd) controller list \<Rightarrow> string \<Rightarrow> 's
     \<Rightarrow> ('s, 'j) obs list \<times> InterruptManager \<times> ('s, 'd) controller list
         \<times> (('s \<times> 'd error option) option + 's)" where
  "check_breakpoint rt m rs currentNode state =
     (if HasBreakpoint m currentNode
      then interrupt_and_wait rt TriggeringBreakpoint m rs currentNode None state
      else ([], m, rs, Inr state))"

text \<open>Lines 280 to 290: the translation of the router's output, name by name.\<close>

fun map_nodes :: "(string \<rightharpoonup> string) \<Rightarrow> string list \<Rightarrow> string list \<Rightarrow> string list" where
  "map_nodes mapping [] mappedNodes = mappedNodes"
| "map_nodes mapping (node # nextNodes) mappedNodes =
     (case mapping node of
        Some mapped \<Rightarrow> map_nodes mapping nextNodes (mappedNodes @ [mapped])
      | None \<Rightarrow> map_nodes mapping nextNodes (mappedNodes @ [node]))"

definition translate_nodes :: "(string \<rightharpoonup> string) option \<Rightarrow> string list \<Rightarrow> string list" where
  "translate_nodes mapping nextNodes =
     (case mapping of Some mp \<Rightarrow> map_nodes mp nextNodes [] | None \<Rightarrow> nextNodes)"

text \<open>
  Lines 266 to 297: the scan of the edges in their order. \<open>None\<close> is \<^verbatim>\<open>foundNext == false\<close>
  after the loop, \<open>Some (Inl e)\<close> an error returned from inside it, \<open>Some (Inr n)\<close> the new
  \<^verbatim>\<open>currentNode\<close>, which is \<^verbatim>\<open>nextNodes[0]\<close> of a list that is not empty.
\<close>

fun scan_edges ::
  "('s, 'w, 'd) ConditionalEdge list \<Rightarrow> string \<Rightarrow> 's \<Rightarrow> 'w
     \<Rightarrow> ('s, 'j) obs list \<times> ('d error + string) option \<times> 'w" where
  "scan_edges [] currentNode state w = ([], None, w)"
| "scan_edges (edge # rest) currentNode state w =
     (if From edge = currentNode then
        (case Router edge state w of
           ((nextNodes, Some err), w') \<Rightarrow>
             ([RouterCall currentNode state], Some (Inl (RouterError currentNode err)), w')
         | ((nextNodes, None), w') \<Rightarrow>
             if length nextNodes = 0
             then ([RouterCall currentNode state], Some (Inl InvalidRouterOutput), w')
             else ([RouterCall currentNode state],
                   Some (Inr (translate_nodes (Mapping edge) nextNodes ! 0)), w'))
      else scan_edges rest currentNode state w)"

definition node_event :: "EventType \<Rightarrow> string \<Rightarrow> int \<Rightarrow> Event" where
  "node_event ty currentNode steps =
     \<lparr>Type = ty, Event.Name = currentNode,
      Metadata = [(''langgraph_node'', MetaString currentNode),
                  (''langgraph_step'', MetaInt steps)]\<rparr>"

definition graph_event :: "EventType \<Rightarrow> Event" where
  "graph_event ty = \<lparr>Type = ty, Event.Name = ''LangGraph'', Metadata = []\<rparr>"

text \<open>
  The loop of \<^verbatim>\<open>Invoke\<close> (lines 185 to 305) with what follows it (lines 307 to 316), as
  a function of the loop's variables \<^verbatim>\<open>currentNode\<close>, \<^verbatim>\<open>steps\<close> and \<^verbatim>\<open>state\<close>, of the
  interrupt manager, of the controller's pending actions and of the world. One
  unfolding is one iteration; \<^verbatim>\<open>continue\<close> and the end of the body are the two recursive
  calls. Every wait consumes an action of the controller and every completed body
  increments \<^verbatim>\<open>steps\<close> below the limit, which is why the function is total. \<^verbatim>\<open>steps\<close> is
  a Go \<^verbatim>\<open>int\<close> that is only incremented while it is below \<^verbatim>\<open>recursionLimit\<close>, so it
  never wraps around and is an \<open>int\<close> here. Every send of the streamer is taken to be
  received: with nobody draining an active mode the Go code would block at its first
  send.
\<close>

function invoke_loop ::
  "('s, 'd, 'j) runtime \<Rightarrow> ('s, 'w, 'd) StateGraph \<Rightarrow> InterruptManager
     \<Rightarrow> ('s, 'd) controller list \<Rightarrow> 'w \<Rightarrow> string \<Rightarrow> int \<Rightarrow> 's \<Rightarrow> ('s, 'w, 'd, 'j) run" where
  "invoke_loop rt g m rs w currentNode steps state =
     (if steps \<ge> recursionLimit g then
        finish [] (Some (zero_value rt, Some (RecursionLimitExceeded (recursionLimit g)))) m w
      else if currentNode = END rt then
        finish (EmitValue (streamer g) state @ EmitEvent (streamer g) (graph_event EventChainEnd))
          (Some (state, None)) m w
      else
        (case check_breakpoint rt m rs currentNode state of
           (log1, m1, rs1, Inl res) \<Rightarrow> finish log1 res m1 w
         | (log1, m1, rs1, Inr state1) \<Rightarrow>
             (case nodes g currentNode of
                None \<Rightarrow> finish log1 (Some (zero_value rt, Some (NodeNotFound currentNode))) m1 w
              | Some node \<Rightarrow>
                  (case Function node state1 w of
                     ((state2, Some err), w2) \<Rightarrow>
                       if IsInterruptError err then
                         (case interrupt_and_wait rt TriggeringInterrupt m1 rs1 currentNode
                                 (fst (GetInterruptData err)) state2 of
                            (log3, m3, rs3, Inl res) \<Rightarrow>
                              finish (log1 @ EmitEvent (streamer g) (node_event EventChainStart currentNode steps)
                                        @ [NodeCall currentNode state1] @ log3) res m3 w2
                          | (log3, m3, rs3, Inr state3) \<Rightarrow>
                              after (log1 @ EmitEvent (streamer g) (node_event EventChainStart currentNode steps)
                                        @ [NodeCall currentNode state1] @ log3)
                                (invoke_loop rt g m3 rs3 w2 currentNode steps state3))
                       else
                         finish (log1 @ EmitEvent (streamer g) (node_event EventChainStart currentNode steps)
                                   @ [NodeCall currentNode state1])
                           (Some (zero_value rt, Some (NodeExecutionFailed currentNode err))) m1 w2
                   | ((state2, None), w2) \<Rightarrow>
                       (case scan_edges (edges g) currentNode state2 w2 of
                          (log4, None, w4) \<Rightarrow>
                            finish (log1 @ EmitEvent (streamer g) (node_event EventChainStart currentNode steps)
                                      @ [NodeCall currentNode state1]
                                      @ EmitEvent (streamer g) (node_event EventChainEnd currentNode steps)
                                      @ EmitUpdate (streamer g) state2 @ log4)
                              (Some (zero_value rt, Some (NoOutgoingEdge currentNode))) m1 w4
                        | (log4, Some (Inl err), w4) \<Rightarrow>
                            finish (log1 @ EmitEvent (streamer g) (node_event EventChainStart currentNode steps)
                                      @ [NodeCall currentNode state1]
                                      @ EmitEvent (streamer g) (node_event EventChainEnd currentNode steps)
                                      @ EmitUpdate (streamer g) state2 @ log4)
                              (Some (zero_value rt, Some err)) m1 w4
                        | (log4, Some (Inr next), w4) \<Rightarrow>
                            after (log1 @ EmitEvent (streamer g) (node_event EventChainStart currentNode steps)
                                      @ [NodeCall currentNode state1]
                                      @ EmitEvent (streamer g) (node_event EventChainEnd currentNode steps)
                                      @ EmitUpdate (streamer g) state2 @ log4)
                              (invoke_loop rt g m1 rs1 w4 next (steps + 1) state2))))))"
  by pat_completeness auto
termination
proof -
  have wait: "length rs' < length rs"
    if "WaitForResume z m rs = (Some x, m', rs')"
    for z :: 's and m m' and rs rs' :: "('s, 'e) controller list" and x
    using that
  proof (induction z m rs rule: WaitForResume.induct)
    case (2 zero m edits state rs)
    then show ?case
      by (cases "Resume (edit_breakpoints m edits) state :: InterruptManager \<times> 'e error option")
         (auto split: option.splits)
  qed auto
  have iw: "length rs' < length rs"
    if "(log, y) = interrupt_and_wait rt wrap m rs c d s" "(m', y1) = y" "(rs', y2) = y1"
      "y2 = Inr s'"
    for rt :: "('s, 'e, 'j) runtime" and wrap m rs c d s and log :: "('s, 'j) obs list"
      and m' rs' s' y y1 y2
    using that(1) [symmetric] that(2-4)
    by (auto simp: interrupt_and_wait_def split: prod.splits sum.splits option.splits
        dest: wait)
  have cb: "length rs' \<le> length rs"
    if "(log, y) = check_breakpoint rt m rs c s" "(m', y1) = y" "(rs', y2) = y1" "y2 = Inr s'"
    for rt :: "('s, 'e, 'j) runtime" and m rs c s and log :: "('s, 'j) obs list"
      and m' rs' s' y y1 y2
  proof (cases "HasBreakpoint m c")
    case True
    with that have "(log, y) = interrupt_and_wait rt TriggeringBreakpoint m rs c None s"
      by (simp add: check_breakpoint_def)
    from iw [OF this that(2-4)] show ?thesis by simp
  next
    case False
    with that show ?thesis by (auto simp: check_breakpoint_def)
  qed
  show ?thesis
    apply (relation "measures [\<lambda>(rt, g, m, rs, w, c, steps, s). length rs,
                       \<lambda>(rt, g, m, rs, w, c, steps, s). nat (recursionLimit g - steps)]")
    subgoal by simp
    subgoal premises p
      using cb [OF p(3-6)] p(1) by auto
    subgoal premises p
      using cb [OF p(3-6)] iw [OF p(12-15)] by simp
    done
qed

declare invoke_loop.simps [simp del]

text \<open>\<^verbatim>\<open>(*RunnableState).Invoke\<close>: lines 173 to 183, then the loop.\<close>

definition Invoke ::
  "('s, 'd, 'j) runtime \<Rightarrow> ('s, 'w, 'd) StateGraph \<Rightarrow> ('s, 'd) controller list \<Rightarrow> 'w \<Rightarrow> 's
     \<Rightarrow> ('s, 'w, 'd, 'j) run" where
  "Invoke rt g rs w state =
     after (EmitValue (streamer g) state @ EmitEvent (streamer g) (graph_event EventChainStart))
       (invoke_loop rt g (interruptManager g) rs w (entryPoint g) 0 state)"

text \<open>
  The two ways one iteration of the loop leads to the next, as a relation between the
  values of the loop's variables (with the manager, the controller's pending actions
  and the world) at the top of an iteration: \<open>retry\<close> is the \<^verbatim>\<open>continue\<close> after an
  interrupt, \<open>advance\<close> the end of the body.
\<close>

type_synonym ('s, 'w, 'd) loop_state =
  "InterruptManager \<times> ('s, 'd) controller list \<times> 'w \<times> string \<times> int \<times> 's"

inductive next_iteration ::
  "('s, 'd, 'j) runtime \<Rightarrow> ('s, 'w, 'd) StateGraph
     \<Rightarrow> ('s, 'w, 'd) loop_state \<Rightarrow> ('s, 'w, 'd) loop_state \<Rightarrow> bool"
  for rt :: "('s, 'd, 'j) runtime" and g :: "('s, 'w, 'd) StateGraph" where
  retry:
    "steps < recursionLimit g \<Longrightarrow> currentNode \<noteq> END rt \<Longrightarrow>
     check_breakpoint rt m rs currentNode state =
       (log_b :: ('s, 'j) obs list, m_b, rs_b, Inr state_b) \<Longrightarrow>
     nodes g currentNode = Some node \<Longrightarrow>
     Function node state_b w = ((state_n, Some err), w_n) \<Longrightarrow> IsInterruptError err \<Longrightarrow>
     interrupt_and_wait rt TriggeringInterrupt m_b rs_b currentNode (fst (GetInterruptData err))
       state_n = (log_i :: ('s, 'j) obs list, m_i, rs_i, Inr resumed) \<Longrightarrow>
     next_iteration rt g (m, rs, w, currentNode, steps, state)
       (m_i, rs_i, w_n, currentNode, steps, resumed)"
| advance:
    "steps < recursionLimit g \<Longrightarrow> currentNode \<noteq> END rt \<Longrightarrow>
     check_breakpoint rt m rs currentNode state =
       (log_b :: ('s, 'j) obs list, m_b, rs_b, Inr state_b) \<Longrightarrow>
     nodes g currentNode = Some node \<Longrightarrow>
     Function node state_b w = ((state_n, None), w_n) \<Longrightarrow>
     scan_edges (edges g) currentNode state_n w_n =
       (log_r :: ('s, 'j) obs list, Some (Inr next), w_r) \<Longrightarrow>
     next_iteration rt g (m, rs, w, currentNode, steps, state)
       (m_b, rs_b, w_r, next, steps + 1, state_n)"

text \<open>The run of the loop from the top of an iteration.\<close>

definition loop_at ::
  "('s, 'd, 'j) runtime \<Rightarrow> ('s, 'w, 'd) StateGraph \<Rightarrow> ('s, 'w, 'd) loop_state
     \<Rightarrow> ('s, 'w, 'd, 'j) run" where
  "loop_at rt g ls =
     (case ls of (m, rs, w, currentNode, steps, state) \<Rightarrow>
        invoke_loop rt g m rs w currentNode steps state)"

text \<open>
  The errors \<^verbatim>\<open>Invoke\<close> builds itself, as opposed to those it is handed by a step
  function, a router, \<^verbatim>\<open>json.Marshal\<close> or the context.
\<close>

fun is_invoke_error :: "'d error \<Rightarrow> bool" where
  "is_invoke_error (InterruptError d) = False"
| "is_invoke_error (ErrorString msg) = False"
| "is_invoke_error err = True"

text \<open>What a log sends on the stream channel in one mode, in order.\<close>

fun streamed :: "StreamMode \<Rightarrow> ('s, 'j) obs list \<Rightarrow> 's list" where
  "streamed mode [] = []"
| "streamed mode (StreamSend e # log) =
     (if Mode e = mode then StreamEvent.Data e # streamed mode log else streamed mode log)"
| "streamed mode (other # log) = streamed mode log"

section \<open>An instance: the state of examples/graph\<close>

text \<open>
  The state of \<^verbatim>\<open>examples/graph/main.go\<close> without its \<^verbatim>\<open>Messages\<close> (the message type is
  not among the sources). \<^verbatim>\<open>Result\<close> is a \<^verbatim>\<open>float64\<close>; of its values the instance has the
  whole numbers and \<^verbatim>\<open>NaN\<close>, which \<^verbatim>\<open>json.Marshal\<close> refuses. Both fields are tagged
  \<^verbatim>\<open>omitempty\<close>. The world is the number of step functions called so far, and the value
  \<^verbatim>\<open>"__end__"\<close> of \<^verbatim>\<open>END\<close> is the instance's choice.
\<close>

datatype number = Num int | NaN

record State =
  Result :: number
  Poem :: string

datatype json = JNull | JNumber int | JString string | JObject "(string \<times> json) list"

definition marshal_State :: "State \<Rightarrow> string error + json" where
  "marshal_State s =
     (case Result s of
        NaN \<Rightarrow> Inl (ErrorString ''json: unsupported value: NaN'')
      | Num n \<Rightarrow>
          Inr (JObject ((if n = 0 then [] else [(''result'', JNumber n)])
                        @ (if Poem s = [] then [] else [(''poem'', JString (Poem s))]))))"

definition marshal_payload :: "string option \<Rightarrow> string error + json" where
  "marshal_payload d = (case d of None \<Rightarrow> Inr JNull | Some text \<Rightarrow> Inr (JString text))"

definition example_runtime :: "(State, string, json) runtime" where
  "example_runtime =
     \<lparr>zero_value = \<lparr>Result = Num 0, Poem = []\<rparr>, END = ''__end__'',
      marshal_data = marshal_payload, marshal_state = marshal_State\<rparr>"

definition calc :: "(State, nat, string) step_function" where
  "calc state w = ((state\<lparr>Result := Num 55\<rparr>, None), Suc w)"

definition to_END :: "(State, nat, string) Router" where
  "to_END state w = (([END example_runtime], None), w)"

text \<open>Scenario A of the specification, with the stream modes left open.\<close>

definition scenario_A :: "StreamMode list \<Rightarrow> (State, nat, string) StateGraph" where
  "scenario_A ms =
     SetEntryPoint
       (AddConditionalEdges
          (AddNode (SetStreamConfig NewStateGraph \<lparr>Modes = ms, BufferSize = 100\<rparr>) ''calc'' calc)
          ''calc'' to_END None)
       ''calc''"

text \<open>A step function that interrupts through the helper when first called.\<close>

definition ask :: "(State, nat, string) step_function" where
  "ask state w =
     (if w = 0 then (Interrupt example_runtime () (Some ''approve?''), Suc w)
      else ((state\<lparr>Poem := ''approved''\<rparr>, None), Suc w))"

definition ask_graph :: "(State, nat, string) StateGraph" where
  "ask_graph =
     SetEntryPoint (AddConditionalEdges (AddNode NewStateGraph ''ask'' ask) ''ask'' to_END None)
       ''ask''"

text \<open>
  Two edges from the same node: the first names two candidates and translates one of
  them, the second would end the run.
\<close>

definition to_x_y :: "(State, nat, string) Router" where
  "to_x_y state w = (([''x'', ''y''], None), w)"

definition route_graph :: "(State, nat, string) StateGraph" where
  "route_graph =
     SetEntryPoint
       (AddConditionalEdges
          (AddConditionalEdges (AddNode (AddNode NewStateGraph ''a'' calc) ''b'' calc)
             ''a'' to_x_y (Some [''x'' \<mapsto> ''b'']))
          ''a'' to_END None)
       ''a''"

text \<open>
  Scenario B of the specification: the only edge routes the node back to itself, and
  the recursion limit is 1.
\<close>

definition to_self :: "(State, nat, string) Router" where
  "to_self state w = (([''calc''], None), w)"

definition scenario_B :: "(State, nat, string) StateGraph" where
  "scenario_B =
     SetRecursionLimit
       (SetEntryPoint
          (AddConditionalEdges (AddNode NewStateGraph ''calc'' calc) ''calc'' to_self None)
          ''calc'')
       1"

text \<open>
  A step function that fails, a router that names nobody and one that fails, the graphs
  on which each way of failing is met in the first iteration, and the error of a
  context that is cancelled. \<open>stale_ask_graph\<close> is \<open>ask_graph\<close> with the manager left
  interrupted by an earlier run.
\<close>

definition failing :: "(State, nat, string) step_function" where
  "failing state w = ((state, Some (ErrorString ''math expert error'')), Suc w)"

definition to_nowhere :: "(State, nat, string) Router" where
  "to_nowhere state w = (([], None), w)"

definition broken_router :: "(State, nat, string) Router" where
  "broken_router state w = (([], Some (ErrorString ''no route'')), w)"

definition breakpoint_graph :: "(State, nat, string) StateGraph" where
  "breakpoint_graph = AddBreakpoint_graph (scenario_A []) ''calc''"

definition missing_entry_graph :: "(State, nat, string) StateGraph" where
  "missing_entry_graph = SetEntryPoint (scenario_A []) ''missing''"

definition failing_graph :: "(State, nat, string) StateGraph" where
  "failing_graph = SetEntryPoint (AddNode NewStateGraph ''calc'' failing) ''calc''"

definition stale_ask_graph :: "(State, nat, string) StateGraph" where
  "stale_ask_graph = ask_graph\<lparr>interruptManager := NewInterruptManager\<lparr>interrupted := True\<rparr>\<rparr>"

definition no_edge_graph :: "(State, nat, string) StateGraph" where
  "no_edge_graph = SetEntryPoint (AddNode NewStateGraph ''calc'' calc) ''calc''"

definition broken_router_graph :: "(State, nat, string) StateGraph" where
  "broken_router_graph =
     SetEntryPoint
       (AddConditionalEdges (AddNode NewStateGraph ''calc'' calc) ''calc'' broken_router None)
       ''calc''"

definition nowhere_graph :: "(State, nat, string) StateGraph" where
  "nowhere_graph =
     SetEntryPoint
       (AddConditionalEdges (AddNode NewStateGraph ''calc'' calc) ''calc'' to_nowhere None)
       ''calc''"

definition canceled :: "string error" where
  "canceled = ErrorString ''context canceled''"

definition input :: State where
  "input = \<lparr>Result = Num 7, Poem = []\<rparr>"

section \<open>Properties\<close>

subsection \<open>Auxiliary facts\<close>

lemmas example_defs = scenario_A_def scenario_B_def ask_graph_def route_graph_def
  SetEntryPoint_def AddConditionalEdges_def AddNode_def SetStreamConfig_def
  SetRecursionLimit_def AddBreakpoint_def RemoveBreakpoint_def NewStateGraph_def
  NewStreamer_def NewInterruptManager_def DefaultStreamConfig_def example_runtime_def
  calc_def to_END_def to_self_def to_x_y_def ask_def input_def marshal_State_def
  marshal_payload_def Interrupt_def

lemmas engine_defs = Invoke_def check_breakpoint_def interrupt_and_wait_def
  InterruptManager_Interrupt_def HasBreakpoint_def Resume_def finish_def after_def
  EmitValue_def EmitEvent_def EmitUpdate_def hasMode_def node_event_def graph_event_def
  StreamValues_def StreamUpdates_def StreamDebug_def EventChainStart_def EventChainEnd_def
  translate_nodes_def

lemmas fatal_defs = breakpoint_graph_def missing_entry_graph_def failing_graph_def
  stale_ask_graph_def no_edge_graph_def broken_router_graph_def nowhere_graph_def
  failing_def to_nowhere_def broken_router_def canceled_def AddBreakpoint_graph_def

lemma map_nodes_append:
  "map_nodes mp ns acc = acc @ map (\<lambda>n. case mp n of Some n' \<Rightarrow> n' | None \<Rightarrow> n) ns"
  by (induction ns arbitrary: acc) (auto split: option.splits)

lemma translate_nodes_map:
  "translate_nodes mapping ns =
     map (\<lambda>n. case mapping of None \<Rightarrow> n
                | Some mp \<Rightarrow> (case mp n of Some n' \<Rightarrow> n' | None \<Rightarrow> n)) ns"
  by (cases mapping) (simp_all add: translate_nodes_def map_nodes_append)

lemma scan_edges_find_Some:
  "find (\<lambda>e. From e = currentNode) es = Some edge \<Longrightarrow>
   scan_edges es currentNode state w = scan_edges [edge] currentNode state w"
  by (induction es) (auto split: if_splits)

text \<open>One unfolding of the loop, for each way an iteration can go that is used below.\<close>

lemma invoke_loop_limit:
  "recursionLimit g \<le> steps \<Longrightarrow>
   invoke_loop rt g m rs w currentNode steps state =
     finish [] (Some (zero_value rt, Some (RecursionLimitExceeded (recursionLimit g)))) m w"
  by (subst invoke_loop.simps) simp

lemma invoke_loop_END:
  "steps < recursionLimit g \<Longrightarrow>
   invoke_loop rt g m rs w (END rt) steps state =
     finish (EmitValue (streamer g) state @ EmitEvent (streamer g) (graph_event EventChainEnd))
       (Some (state, None)) m w"
  by (subst invoke_loop.simps) simp

lemma invoke_loop_routed:
  assumes "steps < recursionLimit g" and "currentNode \<noteq> END rt"
    and "check_breakpoint rt m rs currentNode state = (log_b, m_b, rs_b, Inr state_b)"
    and "nodes g currentNode = Some node"
    and "Function node state_b w = ((state_n, None), w_n)"
    and "scan_edges (edges g) currentNode state_n w_n = (log_r, Some (Inr next), w_r)"
  shows "invoke_loop rt g m rs w currentNode steps state =
           after (log_b @ EmitEvent (streamer g) (node_event EventChainStart currentNode steps)
                  @ [NodeCall currentNode state_b]
                  @ EmitEvent (streamer g) (node_event EventChainEnd currentNode steps)
                  @ EmitUpdate (streamer g) state_n @ log_r)
             (invoke_loop rt g m_b rs_b w_r next (steps + 1) state_n)"
  using assms by (subst invoke_loop.simps) simp

lemma visit_without_breakpoint:
  assumes "steps < recursionLimit g" and "currentNode \<noteq> END rt"
    and "\<not> HasBreakpoint m currentNode" and "nodes g currentNode = Some node"
  shows "\<exists>rest. observed (invoke_loop rt g m rs w currentNode steps state) =
           EmitEvent (streamer g) (node_event EventChainStart currentNode steps)
           @ NodeCall currentNode state # rest"
  using assms
  by (subst invoke_loop.simps)
     (auto simp: check_breakpoint_def finish_def after_def
        split: prod.splits option.splits sum.splits)

text \<open>What a delivered interrupt and a resume do to the manager.\<close>

lemma interrupted_edit_breakpoints [simp]:
  "interrupted (edit_breakpoints m edits) = interrupted m"
  by (induction edits arbitrary: m)
     (auto simp: AddBreakpoint_def RemoveBreakpoint_def split: breakpoint_edit.splits)

lemma edit_breakpoints_interrupted:
  "edit_breakpoints (m\<lparr>interrupted := b\<rparr>) edits = (edit_breakpoints m edits)\<lparr>interrupted := b\<rparr>"
proof (induction edits arbitrary: m)
  case Nil
  show ?case by simp
next
  case (Cons e es)
  show ?case
    using Cons [of "case e of Add n \<Rightarrow> AddBreakpoint m n | Remove n \<Rightarrow> RemoveBreakpoint m n"]
    by (cases m; cases e) (simp_all add: AddBreakpoint_def RemoveBreakpoint_def)
qed

lemma idle_unchanged: "\<not> interrupted m \<Longrightarrow> m\<lparr>interrupted := False\<rparr> = m"
  by (cases m) simp

lemma Interrupt_idle:
  assumes "\<not> interrupted m" and "marshal_data rt d = Inr dataBytes"
    and "marshal_state rt s = Inr stateBytes"
  shows "InterruptManager_Interrupt rt m c d s =
           (m\<lparr>interrupted := True\<rparr>,
            Inr \<lparr>NodeName = c, InterruptInfo.Data = dataBytes, State = stateBytes\<rparr>)"
  using assms by (simp add: InterruptManager_Interrupt_def)

lemma interrupt_and_wait_resumed:
  assumes "\<not> interrupted m" and "marshal_data rt d = Inr dataBytes"
    and "marshal_state rt s = Inr stateBytes"
  shows "interrupt_and_wait rt wrap m (ControllerResume edits resumed # rs) c d s =
           ([InterruptSend \<lparr>NodeName = c, InterruptInfo.Data = dataBytes, State = stateBytes\<rparr>],
            edit_breakpoints m edits, rs, Inr resumed)"
proof -
  have "(edit_breakpoints m edits)\<lparr>interrupted := False\<rparr> = edit_breakpoints m edits"
    using assms(1) by (simp add: idle_unchanged)
  then show ?thesis
    by (simp add: interrupt_and_wait_def Interrupt_idle [OF assms] Resume_def
        edit_breakpoints_interrupted)
qed

text \<open>
  A run that starts with a manager that is not interrupted meets every iteration with
  a manager that is not interrupted: a wait ends through \<^verbatim>\<open>Resume\<close>, which clears the flag.
\<close>

lemma WaitForResume_idle:
  "WaitForResume z m rs = (Some (s, None), m', rs') \<Longrightarrow> \<not> interrupted m'"
  by (induction z m rs rule: WaitForResume.induct)
     (auto simp: Resume_def split: if_splits)

lemma interrupt_and_wait_idle:
  "interrupt_and_wait rt wrap m rs c d s = (log, m', rs', Inr s') \<Longrightarrow> \<not> interrupted m'"
  by (auto simp: interrupt_and_wait_def split: prod.splits sum.splits option.splits
      dest: WaitForResume_idle)

lemma check_breakpoint_idle:
  "\<not> interrupted m \<Longrightarrow> check_breakpoint rt m rs c s = (log, m', rs', Inr s') \<Longrightarrow>
   \<not> interrupted m'"
  by (auto simp: check_breakpoint_def split: if_splits dest: interrupt_and_wait_idle)

lemma next_iteration_is_loop:
  "next_iteration rt g (m, rs, w, c, steps, s) (m', rs', w', c', steps', s') \<Longrightarrow>
   \<exists>log. invoke_loop rt g m rs w c steps s = after log (invoke_loop rt g m' rs' w' c' steps' s')"
  by (induction "(m, rs, w, c, steps, s)" "(m', rs', w', c', steps', s')"
        rule: next_iteration.induct)
     (subst invoke_loop.simps, force)+

lemma next_iteration_idle:
  "next_iteration rt g (m, rs, w, c, steps, s) (m', rs', w', c', steps', s') \<Longrightarrow>
   \<not> interrupted m \<Longrightarrow> \<not> interrupted m'"
  by (induction "(m, rs, w, c, steps, s)" "(m', rs', w', c', steps', s')"
        rule: next_iteration.induct)
     (auto dest: interrupt_and_wait_idle check_breakpoint_idle)

lemma iterations_idle:
  "(next_iteration rt g)\<^sup>*\<^sup>* a b \<Longrightarrow> \<not> interrupted (fst a) \<Longrightarrow> \<not> interrupted (fst b)"
proof (induction rule: rtranclp_induct)
  case base
  then show ?case .
next
  case (step y z)
  then show ?case
    by (cases y; cases z) (auto dest: next_iteration_idle)
qed

text \<open>Every error that leaves the loop comes with the zero state.\<close>

lemma interrupt_and_wait_error:
  "interrupt_and_wait rt wrap m rs c d s = (log, m', rs', Inl (Some (s', Some e))) \<Longrightarrow>
   s' = zero_value rt \<and> (\<exists>e'. e = wrap e' \<or> e = WaitingForResume e')"
  by (auto simp: interrupt_and_wait_def split: prod.splits sum.splits option.splits)

lemma check_breakpoint_error:
  "check_breakpoint rt m rs c s = (log, m', rs', Inl (Some (s', Some e))) \<Longrightarrow>
   s' = zero_value rt \<and> is_invoke_error e"
  by (auto simp: check_breakpoint_def split: if_splits dest!: interrupt_and_wait_error)

lemma scan_edges_error:
  "scan_edges es c s w = (log, Some (Inl e), w') \<Longrightarrow> is_invoke_error e"
  by (induction es) (auto split: if_splits prod.splits option.splits)

lemma invoke_loop_error_zero:
  "returned (invoke_loop rt g m rs w c steps st) = Some (s', Some e) \<Longrightarrow>
   s' = zero_value rt \<and> is_invoke_error e"
proof (induction rt g m rs w c steps st rule: invoke_loop.induct)
  case (1 rt g m rs w currentNode steps state)
  show ?case
    using "1.prems" "1.IH"
    apply (subst (asm) invoke_loop.simps)
    apply (auto simp: finish_def after_def
        split: if_splits prod.splits option.splits sum.splits
        dest!: interrupt_and_wait_error check_breakpoint_error scan_edges_error)
    done
qed

text \<open>
  What \<^verbatim>\<open>Invoke\<close> returns is what the loop returns from any iteration the run reaches,
  and each way of failing returns the zero state with its error.
\<close>

lemma scan_edges_find_None:
  "find (\<lambda>e. From e = currentNode) es = None \<Longrightarrow>
   scan_edges es currentNode state w = ([], None, w)"
  by (induction es) (auto split: if_splits)

lemma returned_after: "returned (after log r) = returned r"
  by (simp add: after_def)

lemma iterations_returned:
  "(next_iteration rt g)\<^sup>*\<^sup>* a b \<Longrightarrow> returned (loop_at rt g a) = returned (loop_at rt g b)"
proof (induction rule: rtranclp_induct)
  case base
  show ?case by simp
next
  case (step y z)
  obtain m rs w c steps s where y: "y = (m, rs, w, c, steps, s)" by (cases y)
  obtain m' rs' w' c' steps' s' where z: "z = (m', rs', w', c', steps', s')" by (cases z)
  from next_iteration_is_loop [OF step.hyps(2) [unfolded y z]]
  have "returned (loop_at rt g y) = returned (loop_at rt g z)"
    by (auto simp: loop_at_def y z returned_after)
  with step.IH show ?case by simp
qed

lemma Invoke_returned_at:
  assumes "(next_iteration rt g)\<^sup>*\<^sup>* (interruptManager g, rs0, w0, entryPoint g, 0, state0)
             (m, rs, w, currentNode, steps, state)"
  shows "returned (Invoke rt g rs0 w0 state0) =
           returned (invoke_loop rt g m rs w currentNode steps state)"
  using iterations_returned [OF assms] by (simp add: Invoke_def loop_at_def returned_after)

lemma fatal_limit:
  "recursionLimit g \<le> steps \<Longrightarrow>
   returned (invoke_loop rt g m rs w currentNode steps state) =
     Some (zero_value rt, Some (RecursionLimitExceeded (recursionLimit g)))"
  by (simp add: invoke_loop_limit finish_def)

lemma fatal_breakpoint:
  assumes "steps < recursionLimit g" and "currentNode \<noteq> END rt"
    and "HasBreakpoint m currentNode"
    and "InterruptManager_Interrupt rt m currentNode None state = (m_i, Inl e)"
  shows "returned (invoke_loop rt g m rs w currentNode steps state) =
           Some (zero_value rt, Some (TriggeringBreakpoint e))"
  using assms
  by (subst invoke_loop.simps)
     (simp add: check_breakpoint_def interrupt_and_wait_def finish_def)

lemma fatal_breakpoint_wait:
  assumes "steps < recursionLimit g" and "currentNode \<noteq> END rt"
    and "HasBreakpoint m currentNode"
    and "InterruptManager_Interrupt rt m currentNode None state = (m_i, Inr info)"
    and "WaitForResume (zero_value rt) m_i rs = (Some (s', Some e), m_w, rs_w)"
  shows "returned (invoke_loop rt g m rs w currentNode steps state) =
           Some (zero_value rt, Some (WaitingForResume e))"
  using assms
  by (subst invoke_loop.simps)
     (simp add: check_breakpoint_def interrupt_and_wait_def finish_def)

lemma fatal_node_not_found:
  assumes "steps < recursionLimit g" and "currentNode \<noteq> END rt"
    and "check_breakpoint rt m rs currentNode state = (log_b, m_b, rs_b, Inr state_b)"
    and "nodes g currentNode = None"
  shows "returned (invoke_loop rt g m rs w currentNode steps state) =
           Some (zero_value rt, Some (NodeNotFound currentNode))"
  using assms by (subst invoke_loop.simps) (simp add: finish_def)

lemma fatal_node_failed:
  assumes "steps < recursionLimit g" and "currentNode \<noteq> END rt"
    and "check_breakpoint rt m rs currentNode state = (log_b, m_b, rs_b, Inr state_b)"
    and "nodes g currentNode = Some node"
    and "Function node state_b w = ((state_n, Some err), w_n)" and "\<not> IsInterruptError err"
  shows "returned (invoke_loop rt g m rs w currentNode steps state) =
           Some (zero_value rt, Some (NodeExecutionFailed currentNode err))"
  using assms by (subst invoke_loop.simps) (simp add: finish_def)

lemma fatal_interrupt:
  assumes "steps < recursionLimit g" and "currentNode \<noteq> END rt"
    and "check_breakpoint rt m rs currentNode state = (log_b, m_b, rs_b, Inr state_b)"
    and "nodes g currentNode = Some node"
    and "Function node state_b w = ((state_n, Some err), w_n)" and "IsInterruptError err"
    and "InterruptManager_Interrupt rt m_b currentNode (fst (GetInterruptData err)) state_n =
           (m_i, Inl e)"
  shows "returned (invoke_loop rt g m rs w currentNode steps state) =
           Some (zero_value rt, Some (TriggeringInterrupt e))"
  using assms
  by (subst invoke_loop.simps) (simp add: interrupt_and_wait_def finish_def)

lemma fatal_interrupt_wait:
  assumes "steps < recursionLimit g" and "currentNode \<noteq> END rt"
    and "check_breakpoint rt m rs currentNode state = (log_b, m_b, rs_b, Inr state_b)"
    and "nodes g currentNode = Some node"
    and "Function node state_b w = ((state_n, Some err), w_n)" and "IsInterruptError err"
    and "InterruptManager_Interrupt rt m_b currentNode (fst (GetInterruptData err)) state_n =
           (m_i, Inr info)"
    and "WaitForResume (zero_value rt) m_i rs_b = (Some (s', Some e), m_w, rs_w)"
  shows "returned (invoke_loop rt g m rs w currentNode steps state) =
           Some (zero_value rt, Some (WaitingForResume e))"
  using assms
  by (subst invoke_loop.simps) (simp add: interrupt_and_wait_def finish_def)

lemma fatal_no_edge:
  assumes "steps < recursionLimit g" and "currentNode \<noteq> END rt"
    and "check_breakpoint rt m rs currentNode state = (log_b, m_b, rs_b, Inr state_b)"
    and "nodes g currentNode = Some node"
    and "Function node state_b w = ((state_n, None), w_n)"
    and "find (\<lambda>e. From e = currentNode) (edges g) = None"
  shows "returned (invoke_loop rt g m rs w currentNode steps state) =
           Some (zero_value rt, Some (NoOutgoingEdge currentNode))"
  using assms(1-5)
  by (subst invoke_loop.simps) (simp add: scan_edges_find_None [OF assms(6)] finish_def)

lemma fatal_router_error:
  assumes "steps < recursionLimit g" and "currentNode \<noteq> END rt"
    and "check_breakpoint rt m rs currentNode state = (log_b, m_b, rs_b, Inr state_b)"
    and "nodes g currentNode = Some node"
    and "Function node state_b w = ((state_n, None), w_n)"
    and "find (\<lambda>e. From e = currentNode) (edges g) = Some edge"
    and "Router edge state_n w_n = ((nextNodes, Some e), w_r)"
  shows "returned (invoke_loop rt g m rs w currentNode steps state) =
           Some (zero_value rt, Some (RouterError currentNode e))"
proof -
  have "From edge = currentNode"
    using assms(6) by (auto dest: find_Some_iff [THEN iffD1])
  then show ?thesis
    using assms(1-5,7)
    by (subst invoke_loop.simps) (simp add: scan_edges_find_Some [OF assms(6)] finish_def)
qed

lemma fatal_router_output:
  assumes "steps < recursionLimit g" and "currentNode \<noteq> END rt"
    and "check_breakpoint rt m rs currentNode state = (log_b, m_b, rs_b, Inr state_b)"
    and "nodes g currentNode = Some node"
    and "Function node state_b w = ((state_n, None), w_n)"
    and "find (\<lambda>e. From e = currentNode) (edges g) = Some edge"
    and "Router edge state_n w_n = (([], None), w_r)"
  shows "returned (invoke_loop rt g m rs w currentNode steps state) =
           Some (zero_value rt, Some InvalidRouterOutput)"
proof -
  have "From edge = currentNode"
    using assms(6) by (auto dest: find_Some_iff [THEN iffD1])
  then show ?thesis
    using assms(1-5,7)
    by (subst invoke_loop.simps) (simp add: scan_edges_find_Some [OF assms(6)] finish_def)
qed


subsection \<open>The claims\<close>

text \<open>
  C1. The claim: when a step function returns an interrupt error, the \<^verbatim>\<open>InterruptInfo\<close>
  carries the payload and the serialized state that was passed into the step function.
  The code assigns the step function's results to \<^verbatim>\<open>state, err\<close> before it tests \<^verbatim>\<open>err\<close>,
  and passes that \<^verbatim>\<open>state\<close> to \<^verbatim>\<open>Interrupt\<close>. In \<open>ask_graph\<close> the node interrupts through the
  package's helper, which returns the zero state: run on \<open>input\<close> (\<^verbatim>\<open>Result\<close> 7) with nobody
  resuming, the info sent carries the payload and the serialized zero state \<^verbatim>\<open>{}\<close>, not
  the serialized input \<^verbatim>\<open>{"result":7}\<close>.
\<close>

theorem interrupt_info_carries_returned_state:
  "observed (Invoke example_runtime ask_graph [] 0 input) =
     [StreamSend \<lparr>Mode = StreamValues, StreamEvent.Data = input\<rparr>,
      NodeCall ''ask'' input,
      InterruptSend \<lparr>NodeName = ''ask'', InterruptInfo.Data = JString ''approve?'',
                     State = JObject []\<rparr>]
   \<and> marshal_state example_runtime input = Inr (JObject [(''result'', JNumber 7)])
   \<and> marshal_state example_runtime (zero_value example_runtime) = Inr (JObject [])"
  by (simp add: invoke_loop.simps example_defs engine_defs)

text \<open>
  C2. At the top of an iteration, when \<^verbatim>\<open>steps\<close> has reached the recursion limit the
  loop returns the zero state and the recursion-limit error, whatever the current node
  is (\<^verbatim>\<open>END\<close> included), having sent nothing and called nothing. With a limit that is
  not positive, \<^verbatim>\<open>Invoke\<close> therefore fails in its first iteration: its log is the two
  initial emissions, and no step function is called.
\<close>

theorem recursion_limit_checked_first:
  "(recursionLimit g \<le> steps \<longrightarrow>
      invoke_loop rt g m rs w currentNode steps state =
        finish [] (Some (zero_value rt, Some (RecursionLimitExceeded (recursionLimit g)))) m w)
   \<and> (recursionLimit g \<le> 0 \<longrightarrow>
        returned (Invoke rt g rs w state) =
          Some (zero_value rt, Some (RecursionLimitExceeded (recursionLimit g)))
        \<and> observed (Invoke rt g rs w state) =
            EmitValue (streamer g) state @ EmitEvent (streamer g) (graph_event EventChainStart)
        \<and> (\<forall>n s. NodeCall n s \<notin> set (observed (Invoke rt g rs w state))))"
  by (auto simp: invoke_loop_limit Invoke_def after_def finish_def EmitValue_def EmitEvent_def)

theorem recursion_limit_checked_first_witness:
  "recursionLimit (SetRecursionLimit (scenario_A [StreamValues]) 0) \<le> 0
   \<and> invoke_loop example_runtime (SetRecursionLimit (scenario_A [StreamValues]) 0)
         NewInterruptManager [] 0 (END example_runtime) 0 input =
       finish [] (Some (zero_value example_runtime, Some (RecursionLimitExceeded 0)))
         NewInterruptManager (0 :: nat)
   \<and> returned (Invoke example_runtime (SetRecursionLimit (scenario_A [StreamValues]) 0) []
                 (0 :: nat) input) =
       Some (zero_value example_runtime, Some (RecursionLimitExceeded 0))
   \<and> observed (Invoke example_runtime (SetRecursionLimit (scenario_A [StreamValues]) 0) []
                 (0 :: nat) input) =
       [StreamSend \<lparr>Mode = StreamValues, StreamEvent.Data = input\<rparr>]"
  using recursion_limit_checked_first
    [where g = "SetRecursionLimit (scenario_A [StreamValues]) 0" and steps = 0
      and rt = example_runtime and m = NewInterruptManager and rs = "[]" and w = "0 :: nat"
      and currentNode = "END example_runtime" and state = input]
  by (simp add: example_defs EmitValue_def EmitEvent_def hasMode_def StreamValues_def
      StreamDebug_def)

text \<open>
  C3. A routing step: the node's step function has succeeded with state \<open>state_n\<close>.
  Let \<open>edge\<close> be the first edge of the list whose \<^verbatim>\<open>From\<close> is the current node, and let its
  router return the names \<open>nextNodes\<close>, not empty, without an error. Then the names are
  translated one by one, a name that the mapping does not have passing through (and all
  of them when the mapping is nil), and the loop goes on with the first translated
  name as the current node and one more step, however many names there are.
\<close>

theorem routing_first_edge_first_candidate:
  assumes "steps < recursionLimit g" and "currentNode \<noteq> END rt"
    and "check_breakpoint rt m rs currentNode state = (log_b, m_b, rs_b, Inr state_b)"
    and "nodes g currentNode = Some node"
    and "Function node state_b w = ((state_n, None), w_n)"
    and "find (\<lambda>e. From e = currentNode) (edges g) = Some edge"
    and "Router edge state_n w_n = ((nextNodes, None), w_r)"
    and "nextNodes \<noteq> []"
  shows "translate_nodes (Mapping edge) nextNodes =
           map (\<lambda>n. case Mapping edge of None \<Rightarrow> n
                     | Some mp \<Rightarrow> (case mp n of Some n' \<Rightarrow> n' | None \<Rightarrow> n)) nextNodes
         \<and> invoke_loop rt g m rs w currentNode steps state =
             after (log_b @ EmitEvent (streamer g) (node_event EventChainStart currentNode steps)
                    @ [NodeCall currentNode state_b]
                    @ EmitEvent (streamer g) (node_event EventChainEnd currentNode steps)
                    @ EmitUpdate (streamer g) state_n @ [RouterCall currentNode state_n])
               (invoke_loop rt g m_b rs_b w_r
                  (case Mapping edge of None \<Rightarrow> hd nextNodes
                   | Some mp \<Rightarrow> (case mp (hd nextNodes) of Some n' \<Rightarrow> n' | None \<Rightarrow> hd nextNodes))
                  (steps + 1) state_n)"
proof -
  have from_edge: "From edge = currentNode"
    using assms(6) by (auto dest: find_Some_iff [THEN iffD1])
  obtain n ns where ns: "nextNodes = n # ns"
    using assms(8) by (cases nextNodes) auto
  have first: "translate_nodes (Mapping edge) nextNodes ! 0 =
      (case Mapping edge of None \<Rightarrow> hd nextNodes
       | Some mp \<Rightarrow> (case mp (hd nextNodes) of Some n' \<Rightarrow> n' | None \<Rightarrow> hd nextNodes))"
    unfolding ns by (simp add: translate_nodes_map split: option.splits)
  have "scan_edges (edges g) currentNode state_n w_n =
          ([RouterCall currentNode state_n],
           Some (Inr (translate_nodes (Mapping edge) nextNodes ! 0)), w_r)"
    using assms(7) from_edge ns
    by (simp add: scan_edges_find_Some [OF assms(6)])
  from invoke_loop_routed [OF assms(1-5) this] show ?thesis
    unfolding first by (simp add: translate_nodes_map)
qed

theorem routing_first_edge_first_candidate_witness:
  "find (\<lambda>e. From e = ''a'') (edges route_graph) =
     Some \<lparr>From = ''a'', Router = to_x_y, Mapping = Some [''x'' \<mapsto> ''b'']\<rparr>
   \<and> to_x_y (input\<lparr>Result := Num 55\<rparr>) 1 = (([''x'', ''y''], None), 1)
   \<and> translate_nodes (Some [''x'' \<mapsto> ''b'']) [''x'', ''y''] = [''b'', ''y'']
   \<and> invoke_loop example_runtime route_graph NewInterruptManager [] 0 ''a'' 0 input =
       after [NodeCall ''a'' input, RouterCall ''a'' (input\<lparr>Result := Num 55\<rparr>)]
         (invoke_loop example_runtime route_graph NewInterruptManager [] 1 ''b'' 1
            (input\<lparr>Result := Num 55\<rparr>))"
  using routing_first_edge_first_candidate
    [where rt = example_runtime and g = route_graph and m = NewInterruptManager
      and rs = "[]" and w = "0 :: nat" and currentNode = "''a''" and steps = 0 and state = input
      and log_b = "[]" and m_b = NewInterruptManager and rs_b = "[]" and state_b = input
      and node = "\<lparr>StateNode.Name = ''a'', Function = calc\<rparr>"
      and state_n = "input\<lparr>Result := Num 55\<rparr>" and w_n = 1
      and edge = "\<lparr>From = ''a'', Router = to_x_y, Mapping = Some [''x'' \<mapsto> ''b'']\<rparr>"
      and nextNodes = "[''x'', ''y'']" and w_r = 1]
  by (simp add: example_defs engine_defs)

text \<open>
  C4. A visit in which the step function returns the interrupt error with the state
  \<open>state_n\<close>, the interrupt is delivered (the manager is not already interrupted, the
  payload and \<open>state_n\<close> serialize) and the controller resumes with the state \<open>resumed\<close>.
  The loop is entered again from its top with the same current node, the same \<^verbatim>\<open>steps\<close>
  and \<open>resumed\<close> as the state: it does not route, and it does not count a step. Unless
  the controller has left a breakpoint on the node (which comes first in the new
  iteration), what the new iteration does next is to call the same node's step function
  with \<open>resumed\<close>.
\<close>

theorem interrupt_error_retries_same_node:
  assumes "steps < recursionLimit g" and "currentNode \<noteq> END rt"
    and "check_breakpoint rt m rs currentNode state = (log_b, m_b, rs_b, Inr state_b)"
    and "nodes g currentNode = Some node"
    and "Function node state_b w = ((state_n, Some (InterruptError data)), w_n)"
    and "\<not> interrupted m_b" and "marshal_data rt data = Inr dataBytes"
    and "marshal_state rt state_n = Inr stateBytes"
    and "rs_b = ControllerResume edits resumed # rs_i"
  shows "invoke_loop rt g m rs w currentNode steps state =
           after (log_b @ EmitEvent (streamer g) (node_event EventChainStart currentNode steps)
                  @ [NodeCall currentNode state_b,
                     InterruptSend \<lparr>NodeName = currentNode, InterruptInfo.Data = dataBytes,
                                    State = stateBytes\<rparr>])
             (invoke_loop rt g (edit_breakpoints m_b edits) rs_i w_n currentNode steps resumed)
         \<and> (\<not> HasBreakpoint (edit_breakpoints m_b edits) currentNode \<longrightarrow>
              (\<exists>rest. observed (invoke_loop rt g (edit_breakpoints m_b edits) rs_i w_n
                                 currentNode steps resumed) =
                 EmitEvent (streamer g) (node_event EventChainStart currentNode steps)
                 @ NodeCall currentNode resumed # rest))"
proof (intro conjI impI)
  show "invoke_loop rt g m rs w currentNode steps state =
           after (log_b @ EmitEvent (streamer g) (node_event EventChainStart currentNode steps)
                  @ [NodeCall currentNode state_b,
                     InterruptSend \<lparr>NodeName = currentNode, InterruptInfo.Data = dataBytes,
                                    State = stateBytes\<rparr>])
             (invoke_loop rt g (edit_breakpoints m_b edits) rs_i w_n currentNode steps resumed)"
    using assms(1-5)
      interrupt_and_wait_resumed [OF assms(6-8), of TriggeringInterrupt edits resumed rs_i
        currentNode]
    by (subst invoke_loop.simps) (simp add: assms(9))
next
  assume "\<not> HasBreakpoint (edit_breakpoints m_b edits) currentNode"
  from visit_without_breakpoint [OF assms(1,2) this assms(4)]
  show "\<exists>rest. observed (invoke_loop rt g (edit_breakpoints m_b edits) rs_i w_n
                                 currentNode steps resumed) =
                 EmitEvent (streamer g) (node_event EventChainStart currentNode steps)
                 @ NodeCall currentNode resumed # rest" .
qed

theorem interrupt_error_retries_same_node_witness:
  "ask input 0 = ((zero_value example_runtime, Some (InterruptError (Some ''approve?''))), 1)
   \<and> \<not> interrupted NewInterruptManager
   \<and> marshal_data example_runtime (Some ''approve?'') = Inr (JString ''approve?'')
   \<and> marshal_state example_runtime (zero_value example_runtime) = Inr (JObject [])
   \<and> invoke_loop example_runtime ask_graph NewInterruptManager
         [ControllerResume [] (input\<lparr>Poem := ''x''\<rparr>)] 0 ''ask'' 0 input =
       after [NodeCall ''ask'' input,
              InterruptSend \<lparr>NodeName = ''ask'', InterruptInfo.Data = JString ''approve?'',
                             State = JObject []\<rparr>]
         (invoke_loop example_runtime ask_graph NewInterruptManager [] 1 ''ask'' 0
            (input\<lparr>Poem := ''x''\<rparr>))
   \<and> \<not> HasBreakpoint NewInterruptManager ''ask''
   \<and> (\<exists>rest. observed (invoke_loop example_runtime ask_graph NewInterruptManager [] 1 ''ask'' 0
                          (input\<lparr>Poem := ''x''\<rparr>)) =
          NodeCall ''ask'' (input\<lparr>Poem := ''x''\<rparr>) # rest)"
  using interrupt_error_retries_same_node
    [where rt = example_runtime and g = ask_graph and m = NewInterruptManager
      and rs = "[ControllerResume [] (input\<lparr>Poem := ''x''\<rparr>)]" and w = "0 :: nat"
      and currentNode = "''ask''" and steps = 0 and state = input
      and log_b = "[]" and m_b = NewInterruptManager
      and rs_b = "[ControllerResume [] (input\<lparr>Poem := ''x''\<rparr>)]" and state_b = input
      and node = "\<lparr>StateNode.Name = ''ask'', Function = ask\<rparr>"
      and state_n = "zero_value example_runtime" and data = "Some ''approve?''" and w_n = 1
      and dataBytes = "JString ''approve?''" and stateBytes = "JObject []"
      and edits = "[]" and resumed = "input\<lparr>Poem := ''x''\<rparr>" and rs_i = "[]"]
  by (simp add: example_defs engine_defs)



text \<open>
  C6. The claim: \<^verbatim>\<open>Interrupt\<close> sets the flag only after it has serialized the data and the
  state, so that a failed serialization leaves the flag false. The code sets the flag
  first, under the lock, and returns the error of \<^verbatim>\<open>json.Marshal\<close> without resetting it.
  On a fresh manager and a state whose \<^verbatim>\<open>Result\<close> is \<^verbatim>\<open>NaN\<close>, the call returns the error of
  the serialization and leaves the flag true.
\<close>

theorem interrupt_flag_stays_set_when_marshal_fails:
  "\<not> interrupted NewInterruptManager
   \<and> marshal_state example_runtime \<lparr>Result = NaN, Poem = []\<rparr> =
       Inl (ErrorString ''json: unsupported value: NaN'')
   \<and> InterruptManager_Interrupt example_runtime NewInterruptManager ''calc'' None
         \<lparr>Result = NaN, Poem = []\<rparr> =
       (NewInterruptManager\<lparr>interrupted := True\<rparr>,
        Inl (ErrorString ''json: unsupported value: NaN''))"
  by (simp add: example_defs InterruptManager_Interrupt_def)

text \<open>
  C7. Take any iteration that a run of \<^verbatim>\<open>Invoke\<close> reaches. On each of the fatal paths out
  of it, \<^verbatim>\<open>Invoke\<close> returns the zero state together with that path's error: the
  recursion limit is exceeded; \<^verbatim>\<open>Interrupt\<close> fails at a breakpoint, or the wait that
  follows it does; the node is not found; the step function fails with an error that is
  not an interrupt; \<^verbatim>\<open>Interrupt\<close> fails after an interrupt error, or the wait that follows
  it does; no edge leaves the node; the router fails; the router names no node. And
  whenever \<^verbatim>\<open>Invoke\<close> returns an error at all, the state with it is the zero value and the
  error is one of these.
\<close>

theorem fatal_paths_return_zero_state:
  assumes "(next_iteration rt g)\<^sup>*\<^sup>* (interruptManager g, rs0, w0, entryPoint g, 0, state0)
             (m, rs, w, currentNode, steps, state)"
  shows
    "(recursionLimit g \<le> steps \<longrightarrow>
        returned (Invoke rt g rs0 w0 state0) =
          Some (zero_value rt, Some (RecursionLimitExceeded (recursionLimit g))))
     \<and> (steps < recursionLimit g \<and> currentNode \<noteq> END rt \<and> HasBreakpoint m currentNode
          \<and> InterruptManager_Interrupt rt m currentNode None state = (m_i, Inl e) \<longrightarrow>
        returned (Invoke rt g rs0 w0 state0) =
          Some (zero_value rt, Some (TriggeringBreakpoint e)))
     \<and> (steps < recursionLimit g \<and> currentNode \<noteq> END rt \<and> HasBreakpoint m currentNode
          \<and> InterruptManager_Interrupt rt m currentNode None state = (m_i, Inr info)
          \<and> WaitForResume (zero_value rt) m_i rs = (Some (s_w, Some e), m_w, rs_w) \<longrightarrow>
        returned (Invoke rt g rs0 w0 state0) =
          Some (zero_value rt, Some (WaitingForResume e)))
     \<and> (steps < recursionLimit g \<and> currentNode \<noteq> END rt
          \<and> check_breakpoint rt m rs currentNode state = (log_b, m_b, rs_b, Inr state_b)
          \<and> nodes g currentNode = None \<longrightarrow>
        returned (Invoke rt g rs0 w0 state0) =
          Some (zero_value rt, Some (NodeNotFound currentNode)))
     \<and> (steps < recursionLimit g \<and> currentNode \<noteq> END rt
          \<and> check_breakpoint rt m rs currentNode state = (log_b, m_b, rs_b, Inr state_b)
          \<and> nodes g currentNode = Some node
          \<and> Function node state_b w = ((state_n, Some err), w_n) \<and> \<not> IsInterruptError err \<longrightarrow>
        returned (Invoke rt g rs0 w0 state0) =
          Some (zero_value rt, Some (NodeExecutionFailed currentNode err)))
     \<and> (steps < recursionLimit g \<and> currentNode \<noteq> END rt
          \<and> check_breakpoint rt m rs currentNode state = (log_b, m_b, rs_b, Inr state_b)
          \<and> nodes g currentNode = Some node
          \<and> Function node state_b w = ((state_n, Some err), w_n) \<and> IsInterruptError err
          \<and> InterruptManager_Interrupt rt m_b currentNode (fst (GetInterruptData err)) state_n =
                (m_i, Inl e) \<longrightarrow>
        returned (Invoke rt g rs0 w0 state0) =
          Some (zero_value rt, Some (TriggeringInterrupt e)))
     \<and> (steps < recursionLimit g \<and> currentNode \<noteq> END rt
          \<and> check_breakpoint rt m rs currentNode state = (log_b, m_b, rs_b, Inr state_b)
          \<and> nodes g currentNode = Some node
          \<and> Function node state_b w = ((state_n, Some err), w_n) \<and> IsInterruptError err
          \<and> InterruptManager_Interrupt rt m_b currentNode (fst (GetInterruptData err)) state_n =
                (m_i, Inr info)
          \<and> WaitForResume (zero_value rt) m_i rs_b = (Some (s_w, Some e), m_w, rs_w) \<longrightarrow>
        returned (Invoke rt g rs0 w0 state0) =
          Some (zero_value rt, Some (WaitingForResume e)))
     \<and> (steps < recursionLimit g \<and> currentNode \<noteq> END rt
          \<and> check_breakpoint rt m rs currentNode state = (log_b, m_b, rs_b, Inr state_b)
          \<and> nodes g currentNode = Some node
          \<and> Function node state_b w = ((state_n, None), w_n)
          \<and> find (\<lambda>e. From e = currentNode) (edges g) = None \<longrightarrow>
        returned (Invoke rt g rs0 w0 state0) =
          Some (zero_value rt, Some (NoOutgoingEdge currentNode)))
     \<and> (steps < recursionLimit g \<and> currentNode \<noteq> END rt
          \<and> check_breakpoint rt m rs currentNode state = (log_b, m_b, rs_b, Inr state_b)
          \<and> nodes g currentNode = Some node
          \<and> Function node state_b w = ((state_n, None), w_n)
          \<and> find (\<lambda>e. From e = currentNode) (edges g) = Some edge
          \<and> Router edge state_n w_n = ((nextNodes, Some e), w_r) \<longrightarrow>
        returned (Invoke rt g rs0 w0 state0) =
          Some (zero_value rt, Some (RouterError currentNode e)))
     \<and> (steps < recursionLimit g \<and> currentNode \<noteq> END rt
          \<and> check_breakpoint rt m rs currentNode state = (log_b, m_b, rs_b, Inr state_b)
          \<and> nodes g currentNode = Some node
          \<and> Function node state_b w = ((state_n, None), w_n)
          \<and> find (\<lambda>e. From e = currentNode) (edges g) = Some edge
          \<and> Router edge state_n w_n = (([], None), w_r) \<longrightarrow>
        returned (Invoke rt g rs0 w0 state0) = Some (zero_value rt, Some InvalidRouterOutput))
     \<and> (\<forall>s' e'. returned (Invoke rt g rs0 w0 state0) = Some (s', Some e') \<longrightarrow>
            s' = zero_value rt \<and> is_invoke_error e')"
proof -
  note at = Invoke_returned_at [OF assms]
  have general: "\<forall>s' e'. returned (Invoke rt g rs0 w0 state0) = Some (s', Some e') \<longrightarrow>
            s' = zero_value rt \<and> is_invoke_error e'"
    using invoke_loop_error_zero [of rt g "interruptManager g" rs0 w0 "entryPoint g" 0 state0]
    by (simp add: Invoke_def returned_after)
  show ?thesis
    unfolding at
    by (intro conjI impI; (elim conjE)?;
        (rule fatal_limit fatal_breakpoint fatal_breakpoint_wait fatal_node_not_found
           fatal_node_failed fatal_interrupt fatal_interrupt_wait fatal_no_edge
           fatal_router_error fatal_router_output; assumption)?)
       (rule general [unfolded at])
qed


theorem fatal_paths_return_zero_state_witness:
  "returned (Invoke example_runtime scenario_B [] 0 input) =
     Some (zero_value example_runtime, Some (RecursionLimitExceeded 1))
   \<and> returned (Invoke example_runtime breakpoint_graph [] 0 \<lparr>Result = NaN, Poem = []\<rparr>) =
       Some (zero_value example_runtime,
             Some (TriggeringBreakpoint (ErrorString ''json: unsupported value: NaN'')))
   \<and> returned (Invoke example_runtime breakpoint_graph [ContextDone canceled] 0 input) =
       Some (zero_value example_runtime, Some (WaitingForResume canceled))
   \<and> returned (Invoke example_runtime missing_entry_graph [] 0 input) =
       Some (zero_value example_runtime, Some (NodeNotFound ''missing''))
   \<and> returned (Invoke example_runtime failing_graph [] 0 input) =
       Some (zero_value example_runtime,
             Some (NodeExecutionFailed ''calc'' (ErrorString ''math expert error'')))
   \<and> returned (Invoke example_runtime stale_ask_graph [] 0 input) =
       Some (zero_value example_runtime,
             Some (TriggeringInterrupt (ErrorString ''already interrupted'')))
   \<and> returned (Invoke example_runtime ask_graph [ContextDone canceled] 0 input) =
       Some (zero_value example_runtime, Some (WaitingForResume canceled))
   \<and> returned (Invoke example_runtime no_edge_graph [] 0 input) =
       Some (zero_value example_runtime, Some (NoOutgoingEdge ''calc''))
   \<and> returned (Invoke example_runtime broken_router_graph [] 0 input) =
       Some (zero_value example_runtime, Some (RouterError ''calc'' (ErrorString ''no route'')))
   \<and> returned (Invoke example_runtime nowhere_graph [] 0 input) =
       Some (zero_value example_runtime, Some InvalidRouterOutput)
   \<and> zero_value example_runtime = \<lparr>Result = Num 0, Poem = []\<rparr>
   \<and> is_invoke_error (RecursionLimitExceeded 1 :: string error)"
proof -
  have step: "next_iteration example_runtime scenario_B
      (interruptManager scenario_B, [], 0, entryPoint scenario_B, 0, input)
      (interruptManager scenario_B, [], 1, ''calc'', 0 + 1, input\<lparr>Result := Num 55\<rparr>)"
    by (rule next_iteration.advance
          [where node = "\<lparr>StateNode.Name = ''calc'', Function = calc\<rparr>" and log_b = "[]"
             and state_b = input and log_r = "[RouterCall ''calc'' (input\<lparr>Result := Num 55\<rparr>)]"])
       (simp_all add: example_defs engine_defs)
  have reach: "(next_iteration example_runtime scenario_B)\<^sup>*\<^sup>*
      (interruptManager scenario_B, [], 0, entryPoint scenario_B, 0, input)
      (interruptManager scenario_B, [], 1, ''calc'', 0 + 1, input\<lparr>Result := Num 55\<rparr>)"
    using step by (rule r_into_rtranclp)
  note limit = fatal_paths_return_zero_state [OF reach, THEN conjunct1]
  have 1: "returned (Invoke example_runtime scenario_B [] 0 input) =
     Some (zero_value example_runtime, Some (RecursionLimitExceeded 1))"
    using limit by (simp add: example_defs)
  note general = fatal_paths_return_zero_state [OF reach, THEN conjunct2, THEN conjunct2,
      THEN conjunct2, THEN conjunct2, THEN conjunct2, THEN conjunct2, THEN conjunct2,
      THEN conjunct2, THEN conjunct2, THEN conjunct2, rule_format, OF 1]
  have 2: "returned (Invoke example_runtime breakpoint_graph [] 0 \<lparr>Result = NaN, Poem = []\<rparr>) =
       Some (zero_value example_runtime,
             Some (TriggeringBreakpoint (ErrorString ''json: unsupported value: NaN'')))"
    using fatal_paths_return_zero_state [where g = breakpoint_graph and rt = example_runtime and ?rs0.0 = "[]"
          and ?w0.0 = "0 :: nat" and ?state0.0 = "\<lparr>Result = NaN, Poem = []\<rparr>"
          and m_i = "(interruptManager breakpoint_graph)\<lparr>interrupted := True\<rparr>"
          and e = "ErrorString ''json: unsupported value: NaN''",
        OF rtranclp.rtrancl_refl, THEN conjunct2, THEN conjunct1]
    by (simp add: example_defs engine_defs fatal_defs)
  have 3: "returned (Invoke example_runtime breakpoint_graph [ContextDone canceled] 0 input) =
       Some (zero_value example_runtime, Some (WaitingForResume canceled))"
    using fatal_paths_return_zero_state [where g = breakpoint_graph and rt = example_runtime and ?rs0.0 = "[ContextDone canceled]" and ?w0.0 = "0 :: nat" and ?state0.0 = input
          and m_i = "(interruptManager breakpoint_graph)\<lparr>interrupted := True\<rparr>"
          and info = "\<lparr>NodeName = ''calc'', InterruptInfo.Data = JNull,
                        State = JObject [(''result'', JNumber 7)]\<rparr>"
          and s_w = "zero_value example_runtime" and e = canceled
          and m_w = "(interruptManager breakpoint_graph)\<lparr>interrupted := True\<rparr>"
          and rs_w = "[]",
        OF rtranclp.rtrancl_refl, THEN conjunct2, THEN conjunct2, THEN conjunct1]
    by (simp add: example_defs engine_defs fatal_defs)
  have 4: "returned (Invoke example_runtime missing_entry_graph [] 0 input) =
       Some (zero_value example_runtime, Some (NodeNotFound ''missing''))"
    using fatal_paths_return_zero_state [where g = missing_entry_graph and rt = example_runtime and ?rs0.0 = "[]" and ?w0.0 = "0 :: nat" and ?state0.0 = input
          and log_b = "[]" and m_b = "interruptManager missing_entry_graph" and rs_b = "[]" and state_b = input,
        OF rtranclp.rtrancl_refl, THEN conjunct2, THEN conjunct2, THEN conjunct2, THEN conjunct1]
    by (simp add: example_defs engine_defs fatal_defs)
  have 5: "returned (Invoke example_runtime failing_graph [] 0 input) =
       Some (zero_value example_runtime,
             Some (NodeExecutionFailed ''calc'' (ErrorString ''math expert error'')))"
    using fatal_paths_return_zero_state [where g = failing_graph and rt = example_runtime and ?rs0.0 = "[]" and ?w0.0 = "0 :: nat" and ?state0.0 = input
          and log_b = "[]" and m_b = "interruptManager failing_graph" and rs_b = "[]" and state_b = input
          and node = "\<lparr>StateNode.Name = ''calc'', Function = failing\<rparr>" and state_n = input
          and err = "ErrorString ''math expert error''" and w_n = 1,
        OF rtranclp.rtrancl_refl, THEN conjunct2, THEN conjunct2, THEN conjunct2, THEN conjunct2, THEN conjunct1]
    by (simp add: example_defs engine_defs fatal_defs)
  have 6: "returned (Invoke example_runtime stale_ask_graph [] 0 input) =
       Some (zero_value example_runtime,
             Some (TriggeringInterrupt (ErrorString ''already interrupted'')))"
    using fatal_paths_return_zero_state [where g = stale_ask_graph and rt = example_runtime and ?rs0.0 = "[]" and ?w0.0 = "0 :: nat" and ?state0.0 = input
          and log_b = "[]" and m_b = "interruptManager stale_ask_graph" and rs_b = "[]" and state_b = input
          and node = "\<lparr>StateNode.Name = ''ask'', Function = ask\<rparr>"
          and state_n = "zero_value example_runtime"
          and err = "InterruptError (Some ''approve?'')" and w_n = 1
          and m_i = "interruptManager stale_ask_graph"
          and e = "ErrorString ''already interrupted''",
        OF rtranclp.rtrancl_refl, THEN conjunct2, THEN conjunct2, THEN conjunct2, THEN conjunct2, THEN conjunct2, THEN conjunct1]
    by (simp add: example_defs engine_defs fatal_defs)
  have 7: "returned (Invoke example_runtime ask_graph [ContextDone canceled] 0 input) =
       Some (zero_value example_runtime, Some (WaitingForResume canceled))"
    using fatal_paths_return_zero_state [where g = ask_graph and rt = example_runtime and ?rs0.0 = "[ContextDone canceled]" and ?w0.0 = "0 :: nat" and ?state0.0 = input
          and log_b = "[]" and m_b = "interruptManager ask_graph" and rs_b = "[ContextDone canceled]" and state_b = input
          and node = "\<lparr>StateNode.Name = ''ask'', Function = ask\<rparr>"
          and state_n = "zero_value example_runtime"
          and err = "InterruptError (Some ''approve?'')" and w_n = 1
          and m_i = "NewInterruptManager\<lparr>interrupted := True\<rparr>"
          and info = "\<lparr>NodeName = ''ask'', InterruptInfo.Data = JString ''approve?'',
                        State = JObject []\<rparr>"
          and s_w = "zero_value example_runtime" and e = canceled
          and m_w = "NewInterruptManager\<lparr>interrupted := True\<rparr>" and rs_w = "[]",
        OF rtranclp.rtrancl_refl, THEN conjunct2, THEN conjunct2, THEN conjunct2, THEN conjunct2, THEN conjunct2, THEN conjunct2, THEN conjunct1]
    by (simp add: example_defs engine_defs fatal_defs)
  have 8: "returned (Invoke example_runtime no_edge_graph [] 0 input) =
       Some (zero_value example_runtime, Some (NoOutgoingEdge ''calc''))"
    using fatal_paths_return_zero_state [where g = no_edge_graph and rt = example_runtime and ?rs0.0 = "[]" and ?w0.0 = "0 :: nat" and ?state0.0 = input
          and log_b = "[]" and m_b = "interruptManager no_edge_graph" and rs_b = "[]" and state_b = input
          and node = "\<lparr>StateNode.Name = ''calc'', Function = calc\<rparr>"
          and state_n = "input\<lparr>Result := Num 55\<rparr>" and w_n = 1,
        OF rtranclp.rtrancl_refl, THEN conjunct2, THEN conjunct2, THEN conjunct2, THEN conjunct2, THEN conjunct2, THEN conjunct2, THEN conjunct2, THEN conjunct1]
    by (simp add: example_defs engine_defs fatal_defs)
  have 9: "returned (Invoke example_runtime broken_router_graph [] 0 input) =
       Some (zero_value example_runtime, Some (RouterError ''calc'' (ErrorString ''no route'')))"
    using fatal_paths_return_zero_state [where g = broken_router_graph and rt = example_runtime and ?rs0.0 = "[]" and ?w0.0 = "0 :: nat" and ?state0.0 = input
          and log_b = "[]" and m_b = "interruptManager broken_router_graph" and rs_b = "[]" and state_b = input
          and node = "\<lparr>StateNode.Name = ''calc'', Function = calc\<rparr>"
          and state_n = "input\<lparr>Result := Num 55\<rparr>" and w_n = 1
          and edge = "\<lparr>From = ''calc'', Router = broken_router, Mapping = None\<rparr>"
          and nextNodes = "[]" and e = "ErrorString ''no route''" and w_r = 1,
        OF rtranclp.rtrancl_refl, THEN conjunct2, THEN conjunct2, THEN conjunct2, THEN conjunct2, THEN conjunct2, THEN conjunct2, THEN conjunct2, THEN conjunct2, THEN conjunct1]
    by (simp add: example_defs engine_defs fatal_defs)
  have 10: "returned (Invoke example_runtime nowhere_graph [] 0 input) =
       Some (zero_value example_runtime, Some InvalidRouterOutput)"
    using fatal_paths_return_zero_state [where g = nowhere_graph and rt = example_runtime and ?rs0.0 = "[]" and ?w0.0 = "0 :: nat" and ?state0.0 = input
          and log_b = "[]" and m_b = "interruptManager nowhere_graph" and rs_b = "[]" and state_b = input
          and node = "\<lparr>StateNode.Name = ''calc'', Function = calc\<rparr>"
          and state_n = "input\<lparr>Result := Num 55\<rparr>" and w_n = 1
          and edge = "\<lparr>From = ''calc'', Router = to_nowhere, Mapping = None\<rparr>"
          and w_r = 1,
        OF rtranclp.rtrancl_refl, THEN conjunct2, THEN conjunct2, THEN conjunct2, THEN conjunct2, THEN conjunct2, THEN conjunct2, THEN conjunct2, THEN conjunct2, THEN conjunct2, THEN conjunct1]
    by (simp add: example_defs engine_defs fatal_defs)
  show ?thesis
    using 1 2 3 4 5 6 7 8 9 10 general by (simp add: example_runtime_def)
qed

text \<open>
  C8. Scenario A: a fresh graph with any stream configuration, the one node \<^verbatim>\<open>calc\<close>,
  the one edge from \<^verbatim>\<open>calc\<close> whose router names \<^verbatim>\<open>END\<close>, and the entry point \<^verbatim>\<open>calc\<close>; the step
  function returns a state whose \<^verbatim>\<open>Result\<close> is 55. \<^verbatim>\<open>Invoke\<close> returns a state whose \<^verbatim>\<open>Result\<close>
  is 55 and no error. In the values mode it sends two events when that mode is active,
  the initial state and then the final state, and none otherwise; in the updates mode
  it sends one event when that mode is active, the state the step function returned,
  and none otherwise.
\<close>

theorem scenario_A_result_and_streams:
  fixes rt :: "(State, 'd, 'j) runtime"
  assumes "END rt \<noteq> ''calc''"
    and "f state w = ((state', None), w')" and "Result state' = Num 55"
    and "router state' w' = (([END rt], None), w'')"
    and "g = SetEntryPoint
               (AddConditionalEdges
                  (AddNode (SetStreamConfig NewStateGraph config) ''calc'' f)
                  ''calc'' router None)
               ''calc''"
  shows "(\<exists>s. returned (Invoke rt g rs w state) = Some (s, None) \<and> Result s = Num 55)
         \<and> streamed StreamValues (observed (Invoke rt g rs w state)) =
             (if hasMode (streamer g) StreamValues then [state, state'] else [])
         \<and> streamed StreamUpdates (observed (Invoke rt g rs w state)) =
             (if hasMode (streamer g) StreamUpdates then [state'] else [])"
proof -
  have g: "recursionLimit g = 25" "entryPoint g = ''calc''"
    "interruptManager g = NewInterruptManager"
    "nodes g ''calc'' = Some \<lparr>StateNode.Name = ''calc'', Function = f\<rparr>"
    "edges g = [\<lparr>From = ''calc'', Router = router, Mapping = None\<rparr>]"
    by (simp_all add: assms(5) SetEntryPoint_def AddConditionalEdges_def AddNode_def
        SetStreamConfig_def NewStateGraph_def)
  have cb: "check_breakpoint rt NewInterruptManager rs ''calc'' state =
              ([], NewInterruptManager, rs, Inr state)"
    by (simp add: check_breakpoint_def HasBreakpoint_def NewInterruptManager_def)
  have scan: "scan_edges (edges g) ''calc'' state' w' =
                ([RouterCall ''calc'' state'], Some (Inr (END rt)), w'')"
    by (simp add: g assms(4) translate_nodes_def)
  have first: "invoke_loop rt g NewInterruptManager rs w ''calc'' 0 state =
      after ([] @ EmitEvent (streamer g) (node_event EventChainStart ''calc'' 0)
                  @ [NodeCall ''calc'' state]
                  @ EmitEvent (streamer g) (node_event EventChainEnd ''calc'' 0)
                  @ EmitUpdate (streamer g) state' @ [RouterCall ''calc'' state'])
        (invoke_loop rt g NewInterruptManager rs w'' (END rt) (0 + 1) state')"
  proof (rule invoke_loop_routed [OF _ _ cb g(4) _ scan])
    show "0 < recursionLimit g" by (simp add: g)
    show "''calc'' \<noteq> END rt" using assms(1) by simp
    show "Function \<lparr>StateNode.Name = ''calc'', Function = f\<rparr> state w = ((state', None), w')"
      using assms(2) by simp
  qed
  have last: "invoke_loop rt g NewInterruptManager rs w'' (END rt) (0 + 1) state' =
      finish (EmitValue (streamer g) state' @ EmitEvent (streamer g) (graph_event EventChainEnd))
        (Some (state', None)) NewInterruptManager w''"
    by (rule invoke_loop_END) (simp add: g)
  have run: "Invoke rt g rs w state =
      finish (EmitValue (streamer g) state @ EmitEvent (streamer g) (graph_event EventChainStart)
              @ EmitEvent (streamer g) (node_event EventChainStart ''calc'' 0)
              @ [NodeCall ''calc'' state]
              @ EmitEvent (streamer g) (node_event EventChainEnd ''calc'' 0)
              @ EmitUpdate (streamer g) state' @ [RouterCall ''calc'' state']
              @ EmitValue (streamer g) state' @ EmitEvent (streamer g) (graph_event EventChainEnd))
        (Some (state', None)) NewInterruptManager w''"
    unfolding Invoke_def g first last by (simp add: after_def finish_def)
  have modes: "StreamValues \<noteq> StreamUpdates"
    by (simp add: StreamValues_def StreamUpdates_def)
  show ?thesis
    unfolding run using assms(3) modes
    by (simp add: finish_def EmitValue_def EmitUpdate_def EmitEvent_def)
qed

theorem scenario_A_result_and_streams_witness:
  "END example_runtime \<noteq> ''calc''
   \<and> calc input 0 = ((input\<lparr>Result := Num 55\<rparr>, None), 1)
   \<and> (\<exists>s. returned (Invoke example_runtime (scenario_A [StreamValues, StreamUpdates]) [] 0 input) =
             Some (s, None) \<and> Result s = Num 55)
   \<and> streamed StreamValues
         (observed (Invoke example_runtime (scenario_A [StreamValues, StreamUpdates]) [] 0 input)) =
       [input, input\<lparr>Result := Num 55\<rparr>]
   \<and> streamed StreamUpdates
         (observed (Invoke example_runtime (scenario_A [StreamValues, StreamUpdates]) [] 0 input)) =
       [input\<lparr>Result := Num 55\<rparr>]"
  using scenario_A_result_and_streams
    [where rt = example_runtime and f = calc and state = input and w = 0
      and state' = "input\<lparr>Result := Num 55\<rparr>" and w' = 1 and router = to_END and w'' = 1
      and g = "scenario_A [StreamValues, StreamUpdates]"
      and config = "\<lparr>Modes = [StreamValues, StreamUpdates], BufferSize = 100\<rparr>" and rs = "[]"]
  by (simp add: example_defs hasMode_def StreamValues_def StreamUpdates_def)

text \<open>
  C9. The helper \<^verbatim>\<open>Interrupt\<close> returns, for every context and every data, the zero
  state together with an error that \<^verbatim>\<open>IsInterruptError\<close> accepts and from which
  \<^verbatim>\<open>GetInterruptData\<close> reads the data given. A step function that returns what the helper
  returns therefore returns the zero state, whatever state it was called with.
\<close>

theorem interrupt_helper_returns_zero_state:
  "fst (Interrupt rt ctx data) = zero_value rt
   \<and> (case snd (Interrupt rt ctx data) of
        None \<Rightarrow> False
      | Some err \<Rightarrow> IsInterruptError err \<and> GetInterruptData err = (data, True))"
  by (simp add: Interrupt_def)

text \<open>
  C10. When the entry point is \<^verbatim>\<open>END\<close> and the recursion limit is positive, \<^verbatim>\<open>Invoke\<close>
  returns its input state and no error, leaves the manager and the world as they were,
  and its log is the initial emissions followed by the final ones, both of the input
  state: no step function and no router is called.
\<close>

theorem entry_END_returns_input:
  assumes "entryPoint g = END rt" and "0 < recursionLimit g"
  shows "Invoke rt g rs w state =
           finish (EmitValue (streamer g) state
                   @ EmitEvent (streamer g) (graph_event EventChainStart)
                   @ EmitValue (streamer g) state
                   @ EmitEvent (streamer g) (graph_event EventChainEnd))
             (Some (state, None)) (interruptManager g) w
         \<and> (\<forall>n s. NodeCall n s \<notin> set (observed (Invoke rt g rs w state))
                  \<and> RouterCall n s \<notin> set (observed (Invoke rt g rs w state)))"
  using assms
  by (auto simp: invoke_loop_END Invoke_def after_def finish_def EmitValue_def EmitEvent_def)

theorem entry_END_returns_input_witness:
  "entryPoint (SetEntryPoint (scenario_A [StreamValues]) (END example_runtime)) =
     END example_runtime
   \<and> 0 < recursionLimit (SetEntryPoint (scenario_A [StreamValues]) (END example_runtime))
   \<and> Invoke example_runtime (SetEntryPoint (scenario_A [StreamValues]) (END example_runtime))
         [] (0 :: nat) input =
       finish [StreamSend \<lparr>Mode = StreamValues, StreamEvent.Data = input\<rparr>,
               StreamSend \<lparr>Mode = StreamValues, StreamEvent.Data = input\<rparr>]
         (Some (input, None)) NewInterruptManager 0"
  using entry_END_returns_input
    [where g = "SetEntryPoint (scenario_A [StreamValues]) (END example_runtime)"
      and rt = example_runtime and rs = "[]" and w = "0 :: nat" and state = input]
  by (simp add: example_defs EmitValue_def EmitEvent_def hasMode_def StreamValues_def
      StreamDebug_def)

end
